theory Spec2Isabelle
  imports Complex_Main
begin

section \<open>Errors\<close>

text \<open>
  Every failure of the service is a JavaScript \<open>Error\<close> whose message is built from a
  fixed prefix and, for a rewrapped failure, the rendering of its cause. The structure
  of the message is kept as a datatype; \<open>message\<close> renders it as the source does.
\<close>

datatype collection = Table | InlineShape | Section | Paragraph

datatype axis = Row | Column

datatype error =
    Automation string
  | OutOfBounds collection int
  | InsertionOutOfBounds axis int
  | NoActiveDocument
  | NoDocumentOpen
  | InvalidHeaderFooterType int
  | HeaderFooterMissing bool int int
  | Failed string error

function string_of_nat :: "nat \<Rightarrow> string" where
  "string_of_nat n =
     (if n < 10 then [char_of (48 + n)]
      else string_of_nat (n div 10) @ [char_of (48 + n mod 10)])"
  by pat_completeness auto
termination
  by (relation "measure id") auto

definition string_of_int :: "int \<Rightarrow> string" where
  "string_of_int i = (if i < 0 then CHR ''-'' # string_of_nat (nat (- i)) else string_of_nat (nat i))"

fun collection_name :: "collection \<Rightarrow> string" where
  "collection_name Table = ''Table''"
| "collection_name InlineShape = ''InlineShape''"
| "collection_name Section = ''Section''"
| "collection_name Paragraph = ''Paragraph''"

fun axis_name :: "axis \<Rightarrow> string" where
  "axis_name Row = ''Row''"
| "axis_name Column = ''Column''"

definition header_or_footer :: "bool \<Rightarrow> string" where
  "header_or_footer isHeader = (if isHeader then ''header'' else ''footer'')"

fun message :: "error \<Rightarrow> string" where
  "message (Automation m) = m"
| "message (OutOfBounds c i) =
     collection_name c @ '' index '' @ string_of_int i @ '' is out of bounds.''"
| "message (InsertionOutOfBounds a i) =
     axis_name a @ '' index '' @ string_of_int i @ '' is out of bounds for insertion.''"
| "message NoActiveDocument = ''No active document found in Word.''"
| "message NoDocumentOpen = ''Cannot read properties of undefined''"
| "message (InvalidHeaderFooterType t) =
     ''Invalid header/footer type: '' @ string_of_int t @ ''. Use 1, 2, or 3.''"
| "message (HeaderFooterMissing isHeader t sec) =
     ''The requested '' @ header_or_footer isHeader @ '' type ('' @ string_of_int t
       @ '') does not exist or is not active for section '' @ string_of_int sec
       @ ''. Check document settings.''"
| "message (Failed prefix cause) =
     prefix @ '' Error: '' @ (case cause of Automation m \<Rightarrow> m | _ \<Rightarrow> ''Error: '' @ message cause)"

text \<open>The failure at the root of a chain of rewrapped errors.\<close>

fun root_cause :: "error \<Rightarrow> error" where
  "root_cause (Failed prefix cause) = root_cause cause"
| "root_cause e = e"

fun is_out_of_range :: "error \<Rightarrow> bool" where
  "is_out_of_range (OutOfBounds c i) = True"
| "is_out_of_range (InsertionOutOfBounds a i) = True"
| "is_out_of_range e = False"

section \<open>The automation object graph\<close>

text \<open>
  The word processor is reached through automation objects that the service does not
  own. They are modelled as plain data: a property is a record field, a collection is a
  list addressed from 1, and a property assignment is a field update. What the word
  processor itself does in reaction to a call (moving text, rescaling a picture whose
  aspect ratio is locked) is not part of the service and is not modelled; every
  mutating call the service issues is appended to the \<open>calls\<close> log, which is the
  ground truth of what the service attempted. A JavaScript number is modelled by its
  exact value: an integer for counts, indexes and enumeration codes, a rational for a
  size in points. The only arithmetic the service does on sizes is the division of
  \<open>setInlinePictureSize\<close>, which rounds its result to a double (see \<open>js_divide\<close>).

  A call into the automation layer can throw. The failures modelled are the ones the
  service is written around: the three reads of the liveness probe, the constructor,
  the assignment of \<open>Visible\<close>, an application without an open document, a table
  without the requested cell and a header or footer collection without the requested
  member. Every other read and call returns.
\<close>

record inline_shape =
  Height :: rat
  Width :: rat
  LockAspectRatio :: int

record table =
  Rows :: "string list list"
  ColumnsCount :: nat

record header_footer =
  Exists :: bool
  RangeText :: string

record doc_section =
  Headers :: "header_footer list"
  Footers :: "header_footer list"

record selection =
  Underline :: int

record find_settings =
  FindText :: string
  ReplacementText :: string
  Forward :: bool
  Wrap :: int
  Format :: bool
  MatchCase :: bool
  MatchWholeWord :: bool
  MatchWildcards :: bool
  MatchSoundsLike :: bool
  MatchAllWordForms :: bool
  Replace :: int

record document =
  Tables :: "table list"
  InlineShapes :: "inline_shape list"
  Sections :: "doc_section list"
  Paragraphs :: "string list"
  Selection :: selection
  Execute :: "find_settings \<Rightarrow> bool"

datatype probe_step = ReadVisible | ReadDocuments | ReadCount

record app_obj =
  Visible :: bool
  probe_fault :: "probe_step option"
  visible_write_fault :: "string option"
  ActiveDocument :: "document option"

datatype call =
    SelectionDelete int int
  | SelectionMoveStart int int
  | SetUnderline int
  | FindExecute find_settings
  | SetCellText int int int string
  | RowsAdd int "int option"
  | ColumnsAdd int "int option"
  | AutoFormat int "string + int" int
  | SetLockAspectRatio int int
  | SetHeight int rat
  | SetWidth int rat
  | SetHeaderFooterText int int bool string
  | SelectParagraph int

type_synonym handle = nat

text \<open>
  The state: the service's single field \<open>wordApp\<close>, and the world it talks to. A
  handle is the identity of an automation object; \<open>apps\<close> is the store of the objects
  behind the handles, \<open>next_handle\<close> the identity the constructor hands out next and
  \<open>construct_fault\<close> the exception, if any, with which the constructor fails.
\<close>

record state =
  wordApp :: "handle option"
  apps :: "handle \<Rightarrow> app_obj"
  next_handle :: handle
  construct_fault :: "string option"
  calls :: "call list"

type_synonym 'a outcome = "(error + 'a) \<times> state"

section \<open>Automation Handle Manager\<close>

definition init_failed :: string where
  "init_failed = ''Failed to initialize Word.Application. Make sure Microsoft Word is installed.''"

text \<open>
  The second \<open>try\<close> block of \<open>getWordApplication\<close>: the constructor's result is stored
  in \<open>wordApp\<close> first, then \<open>Visible\<close> is assigned; an exception of either is rethrown
  wrapped.
\<close>

definition createInstance :: "state \<Rightarrow> handle outcome" where
  "createInstance s =
     (case construct_fault s of
        Some m \<Rightarrow> (Inl (Failed init_failed (Automation m)), s)
      | None \<Rightarrow>
          (let h = next_handle s;
               s1 = s\<lparr>wordApp := Some h, next_handle := Suc h\<rparr>
           in case visible_write_fault (apps s1 h) of
                Some m \<Rightarrow> (Inl (Failed init_failed (Automation m)), s1)
              | None \<Rightarrow> (Inr h, s1\<lparr>apps := (apps s1)(h := (apps s1 h)\<lparr>Visible := True\<rparr>)\<rparr>)))"

text \<open>
  The first \<open>try\<close> block: the three reads of the liveness probe, in order. The probe
  succeeds when none of them throws.
\<close>

definition probe :: "app_obj \<Rightarrow> bool" where
  "probe a =
     (if probe_fault a = Some ReadVisible then False
      else if probe_fault a = Some ReadDocuments then False
      else if probe_fault a = Some ReadCount then False
      else True)"

definition getWordApplication :: "state \<Rightarrow> handle outcome" where
  "getWordApplication s =
     (case wordApp s of
        Some h \<Rightarrow>
          if probe (apps s h) then (Inr h, s)
          else createInstance (s\<lparr>wordApp := None\<rparr>)
      | None \<Rightarrow> createInstance s)"

definition getActiveDocument :: "state \<Rightarrow> (handle \<times> document) outcome" where
  "getActiveDocument s =
     (case getWordApplication s of
        (Inl e, s1) \<Rightarrow> (Inl e, s1)
      | (Inr h, s1) \<Rightarrow>
          (case ActiveDocument (apps s1 h) of
             None \<Rightarrow> (Inl (Failed ''Failed to get active document.'' NoActiveDocument), s1)
           | Some d \<Rightarrow> (Inr (h, d), s1)))"

section \<open>Operation Service\<close>

text \<open>
  \<open>issue\<close> records a mutating call on the object graph; \<open>update_document\<close> is a
  write through the reference to the active document of the application behind \<open>h\<close>;
  \<open>Item\<close> is the 1-based \<open>Item\<close> of an automation collection, used at an index the
  caller has validated.
\<close>

definition issue :: "call \<Rightarrow> state \<Rightarrow> state" where
  "issue c s = s\<lparr>calls := calls s @ [c]\<rparr>"

definition update_document :: "handle \<Rightarrow> (document \<Rightarrow> document) \<Rightarrow> state \<Rightarrow> state" where
  "update_document h f s =
     s\<lparr>apps := (apps s)(h := (apps s h)\<lparr>ActiveDocument := map_option f (ActiveDocument (apps s h))\<rparr>)\<rparr>"

definition Item :: "'a list \<Rightarrow> int \<Rightarrow> 'a" where
  "Item xs i = xs ! nat (i - 1)"

definition set_Item :: "'a list \<Rightarrow> int \<Rightarrow> 'a \<Rightarrow> 'a list" where
  "set_Item xs i x = xs[nat (i - 1) := x]"

subsection \<open>Text\<close>

definition deleteText :: "int \<Rightarrow> int \<Rightarrow> state \<Rightarrow> unit outcome" where
  "deleteText count unit s =
     (case getWordApplication s of
        (Inl e, s1) \<Rightarrow> (Inl e, s1)
      | (Inr h, s1) \<Rightarrow>
          if count > 0 then
            (case ActiveDocument (apps s1 h) of
               None \<Rightarrow> (Inl (Failed ''Failed to delete text.'' NoDocumentOpen), s1)
             | Some d \<Rightarrow> (Inr (), issue (SelectionDelete unit count) s1))
          else if count < 0 then
            (case ActiveDocument (apps s1 h) of
               None \<Rightarrow> (Inl (Failed ''Failed to delete text.'' NoDocumentOpen), s1)
             | Some d \<Rightarrow>
                 (Inr (), issue (SelectionDelete unit \<bar>count\<bar>)
                            (issue (SelectionMoveStart unit count) s1)))
          else (Inr (), s1))"

definition findAndReplace ::
  "string \<Rightarrow> string \<Rightarrow> bool \<Rightarrow> bool \<Rightarrow> bool \<Rightarrow> state \<Rightarrow> bool outcome" where
  "findAndReplace findText replaceText matchCase matchWholeWord replaceAll s =
     (case getActiveDocument s of
        (Inl e, s1) \<Rightarrow> (Inl e, s1)
      | (Inr (h, d), s1) \<Rightarrow>
          (let find = \<lparr>FindText = findText, ReplacementText = replaceText, Forward = True,
                       Wrap = 1, Format = False, MatchCase = matchCase,
                       MatchWholeWord = matchWholeWord, MatchWildcards = False,
                       MatchSoundsLike = False, MatchAllWordForms = False,
                       Replace = (if replaceAll then 2 else 1)\<rparr>;
               found = Execute d find
           in (Inr found, issue (FindExecute find) s1)))"


subsection \<open>Tables\<close>

text \<open>
  \<open>Cell\<close>, \<open>Rows_Add\<close> and \<open>Columns_Add\<close> belong to the automation model. \<open>Cell\<close>
  throws when the table has no such cell; \<open>Add\<close> inserts before the reference element
  when one is passed and appends otherwise, as the comments at the call sites say. An
  argument that is \<open>undefined\<close> and an argument left out are the same call, the
  convention the service relies on throughout (see the arguments of \<open>find.Execute\<close>).
\<close>

definition Cell :: "table \<Rightarrow> int \<Rightarrow> int \<Rightarrow> error + string" where
  "Cell t r c =
     (if 1 \<le> r \<and> r \<le> int (length (Rows t)) \<and> 1 \<le> c \<and> c \<le> int (length (Item (Rows t) r))
      then Inr (Item (Item (Rows t) r) c)
      else Inl (Automation ''The requested member of the collection does not exist.''))"

definition insert_before :: "int option \<Rightarrow> 'a \<Rightarrow> 'a list \<Rightarrow> 'a list" where
  "insert_before ref x xs =
     (case ref of
        None \<Rightarrow> xs @ [x]
      | Some b \<Rightarrow> take (nat (b - 1)) xs @ [x] @ drop (nat (b - 1)) xs)"

definition Rows_Add :: "int option \<Rightarrow> table \<Rightarrow> table" where
  "Rows_Add ref t = t\<lparr>Rows := insert_before ref (replicate (ColumnsCount t) []) (Rows t)\<rparr>"

definition Columns_Add :: "int option \<Rightarrow> table \<Rightarrow> table" where
  "Columns_Add ref t =
     t\<lparr>Rows := map (insert_before ref []) (Rows t), ColumnsCount := Suc (ColumnsCount t)\<rparr>"

text \<open>A cell is returned as a reference: the application, the table, the row and the column.\<close>

type_synonym cell_ref = "handle \<times> int \<times> int \<times> int"

definition getTableCell :: "int \<Rightarrow> int \<Rightarrow> int \<Rightarrow> state \<Rightarrow> cell_ref outcome" where
  "getTableCell tableIndex rowIndex colIndex s =
     (case getActiveDocument s of
        (Inl e, s1) \<Rightarrow> (Inl e, s1)
      | (Inr (h, d), s1) \<Rightarrow>
          if tableIndex \<le> 0 \<or> tableIndex > int (length (Tables d))
          then (Inl (Failed ''Failed to get cell.'' (OutOfBounds Table tableIndex)), s1)
          else
            (case Cell (Item (Tables d) tableIndex) rowIndex colIndex of
               Inl e \<Rightarrow> (Inl (Failed ''Failed to get cell.'' e), s1)
             | Inr _ \<Rightarrow> (Inr (h, tableIndex, rowIndex, colIndex), s1)))"

definition set_cell_text :: "int \<Rightarrow> int \<Rightarrow> string \<Rightarrow> table \<Rightarrow> table" where
  "set_cell_text r c text t = t\<lparr>Rows := set_Item (Rows t) r (set_Item (Item (Rows t) r) c text)\<rparr>"

definition setTableCellText :: "int \<Rightarrow> int \<Rightarrow> int \<Rightarrow> string \<Rightarrow> state \<Rightarrow> unit outcome" where
  "setTableCellText tableIndex rowIndex colIndex text s =
     (case getTableCell tableIndex rowIndex colIndex s of
        (Inl e, s1) \<Rightarrow> (Inl (Failed ''Failed to set cell text.'' e), s1)
      | (Inr (h, ti, r, c), s1) \<Rightarrow>
          (Inr (),
           issue (SetCellText ti r c text)
             (update_document h
                (\<lambda>d. d\<lparr>Tables := set_Item (Tables d) ti (set_cell_text r c text (Item (Tables d) ti))\<rparr>)
                s1)))"

text \<open>The new row or column is returned as its position in the table.\<close>

definition insertTableRow :: "int \<Rightarrow> int option \<Rightarrow> state \<Rightarrow> int outcome" where
  "insertTableRow tableIndex beforeRowIndex s =
     (case getActiveDocument s of
        (Inl e, s1) \<Rightarrow> (Inl e, s1)
      | (Inr (h, d), s1) \<Rightarrow>
          if tableIndex \<le> 0 \<or> tableIndex > int (length (Tables d))
          then (Inl (Failed ''Failed to insert table row.'' (OutOfBounds Table tableIndex)), s1)
          else
            (let table = Item (Tables d) tableIndex;
                 add = (\<lambda>refRow.
                   (Inr (case refRow of None \<Rightarrow> int (length (Rows table)) + 1 | Some b \<Rightarrow> b),
                    issue (RowsAdd tableIndex refRow)
                      (update_document h
                         (\<lambda>d. d\<lparr>Tables := set_Item (Tables d) tableIndex
                                   (Rows_Add refRow (Item (Tables d) tableIndex))\<rparr>) s1)))
             in case beforeRowIndex of
                  Some b \<Rightarrow>
                    if b \<le> 0 \<or> b > int (length (Rows table)) + 1
                    then (Inl (Failed ''Failed to insert table row.'' (InsertionOutOfBounds Row b)), s1)
                    else add (if b \<le> int (length (Rows table)) then Some b else None)
                | None \<Rightarrow> add None))"

definition insertTableColumn :: "int \<Rightarrow> int option \<Rightarrow> state \<Rightarrow> int outcome" where
  "insertTableColumn tableIndex beforeColIndex s =
     (case getActiveDocument s of
        (Inl e, s1) \<Rightarrow> (Inl e, s1)
      | (Inr (h, d), s1) \<Rightarrow>
          if tableIndex \<le> 0 \<or> tableIndex > int (length (Tables d))
          then (Inl (Failed ''Failed to insert table column.'' (OutOfBounds Table tableIndex)), s1)
          else
            (let table = Item (Tables d) tableIndex;
                 add = (\<lambda>refCol.
                   (Inr (case refCol of None \<Rightarrow> int (ColumnsCount table) + 1 | Some b \<Rightarrow> b),
                    issue (ColumnsAdd tableIndex refCol)
                      (update_document h
                         (\<lambda>d. d\<lparr>Tables := set_Item (Tables d) tableIndex
                                   (Columns_Add refCol (Item (Tables d) tableIndex))\<rparr>) s1)))
             in case beforeColIndex of
                  Some b \<Rightarrow>
                    if b \<le> 0 \<or> b > int (ColumnsCount table) + 1
                    then (Inl (Failed ''Failed to insert table column.''
                                 (InsertionOutOfBounds Column b)), s1)
                    else add (if b \<le> int (ColumnsCount table) then Some b else None)
                | None \<Rightarrow> add None))"

definition applyTableAutoFormat :: "int \<Rightarrow> string + int \<Rightarrow> int option \<Rightarrow> state \<Rightarrow> unit outcome" where
  "applyTableAutoFormat tableIndex formatName applyFormatting s =
     (case getActiveDocument s of
        (Inl e, s1) \<Rightarrow> (Inl e, s1)
      | (Inr (h, d), s1) \<Rightarrow>
          if tableIndex \<le> 0 \<or> tableIndex > int (length (Tables d))
          then (Inl (Failed ''Failed to apply table auto format.'' (OutOfBounds Table tableIndex)), s1)
          else
            (let defaultApplyFlags = 1 + 2 + 4 + 8 + 16 + 32 + 64 + 128 + 256
             in (Inr (),
                 issue (AutoFormat tableIndex formatName
                          (case applyFormatting of Some f \<Rightarrow> f | None \<Rightarrow> defaultApplyFlags)) s1)))"

subsection \<open>Images\<close>

text \<open>
  The quotient of two JavaScript numbers is the exact quotient rounded to the nearest
  double, ties to the double with an even significand (IEEE 754, binary64). \<open>quantum x\<close>
  is the spacing of the doubles around \<open>x \<ge> 0\<close>: the power of two \<open>q\<close> with
  \<open>2 ^ 52 * q \<le> x < 2 ^ 53 * q\<close>, kept between \<open>2 ^ - 1074\<close> (subnormal numbers) and
  \<open>2 ^ 971\<close> (the largest binade); it is searched upwards or downwards from 1. A
  result that rounds to \<open>2 ^ 1024\<close> or more is an infinity. Dividing by zero gives an
  infinity, or \<open>NaN\<close> for \<open>0 / 0\<close>, and no comparison with \<open>NaN\<close> holds. A zero
  divisor is taken as \<open>+0\<close>; the sign of a zero result is not kept (it does not
  influence a comparison).
\<close>

datatype js_quotient = NaN | NegInfinity | Finite rat | PosInfinity

definition round_half_even :: "rat \<Rightarrow> int" where
  "round_half_even z =
     (let f = \<lfloor>z\<rfloor>; r = z - of_int f
      in if r < 1 / 2 then f
         else if r > 1 / 2 then f + 1
         else if even f then f else f + 1)"

fun quantum_up :: "nat \<Rightarrow> rat \<Rightarrow> rat \<Rightarrow> rat" where
  "quantum_up 0 q x = q"
| "quantum_up (Suc n) q x = (if x < 2 ^ 53 * q then q else quantum_up n (2 * q) x)"

fun quantum_down :: "nat \<Rightarrow> rat \<Rightarrow> rat \<Rightarrow> rat" where
  "quantum_down 0 q x = q"
| "quantum_down (Suc n) q x = (if 2 ^ 52 * q \<le> x then q else quantum_down n (q / 2) x)"

definition quantum :: "rat \<Rightarrow> rat" where
  "quantum x = (if 2 ^ 53 \<le> x then quantum_up 971 1 x else quantum_down 1074 1 x)"

definition double_of :: "rat \<Rightarrow> js_quotient" where
  "double_of x =
     (let a = \<bar>x\<bar>;
          q = quantum a;
          r = of_int (round_half_even (a / q)) * q
      in if r \<ge> 2 ^ 1024 then (if x < 0 then NegInfinity else PosInfinity)
         else Finite (if x < 0 then - r else r))"

definition js_divide :: "rat \<Rightarrow> rat \<Rightarrow> js_quotient" where
  "js_divide a b =
     (if b \<noteq> 0 then double_of (a / b)
      else if a > 0 then PosInfinity
      else if a < 0 then NegInfinity
      else NaN)"

fun js_greater :: "js_quotient \<Rightarrow> js_quotient \<Rightarrow> bool" where
  "js_greater NaN y = False"
| "js_greater x NaN = False"
| "js_greater NegInfinity y = False"
| "js_greater x NegInfinity = True"
| "js_greater x PosInfinity = False"
| "js_greater PosInfinity y = True"
| "js_greater (Finite a) (Finite b) = (a > b)"

definition set_shape :: "int \<Rightarrow> (inline_shape \<Rightarrow> inline_shape) \<Rightarrow> document \<Rightarrow> document" where
  "set_shape i f d = d\<lparr>InlineShapes := set_Item (InlineShapes d) i (f (Item (InlineShapes d) i))\<rparr>"

definition assign_LockAspectRatio :: "handle \<Rightarrow> int \<Rightarrow> int \<Rightarrow> state \<Rightarrow> state" where
  "assign_LockAspectRatio h i v s =
     issue (SetLockAspectRatio i v) (update_document h (set_shape i (\<lambda>sh. sh\<lparr>LockAspectRatio := v\<rparr>)) s)"

definition assign_Height :: "handle \<Rightarrow> int \<Rightarrow> rat \<Rightarrow> state \<Rightarrow> state" where
  "assign_Height h i v s =
     issue (SetHeight i v) (update_document h (set_shape i (\<lambda>sh. sh\<lparr>Height := v\<rparr>)) s)"

definition assign_Width :: "handle \<Rightarrow> int \<Rightarrow> rat \<Rightarrow> state \<Rightarrow> state" where
  "assign_Width h i v s =
     issue (SetWidth i v) (update_document h (set_shape i (\<lambda>sh. sh\<lparr>Width := v\<rparr>)) s)"

definition setInlinePictureSize :: "int \<Rightarrow> rat \<Rightarrow> rat \<Rightarrow> bool \<Rightarrow> state \<Rightarrow> unit outcome" where
  "setInlinePictureSize shapeIndex heightPoints widthPoints lockAspectRatio s =
     (case getActiveDocument s of
        (Inl e, s1) \<Rightarrow> (Inl e, s1)
      | (Inr (h, d), s1) \<Rightarrow>
          if shapeIndex \<le> 0 \<or> shapeIndex > int (length (InlineShapes d))
          then (Inl (Failed ''Failed to set inline picture size.'' (OutOfBounds InlineShape shapeIndex)), s1)
          else
            (let shape = Item (InlineShapes d) shapeIndex;
                 originalHeight = Height shape;
                 originalWidth = Width shape;
                 s2 = assign_LockAspectRatio h shapeIndex (if lockAspectRatio then - 1 else 0) s1
             in if heightPoints > 0 \<and> widthPoints > 0 then
                  if lockAspectRatio then
                    (let heightRatio = js_divide heightPoints originalHeight;
                         widthRatio = js_divide widthPoints originalWidth
                     in if js_greater widthRatio heightRatio
                        then (Inr (), assign_Width h shapeIndex widthPoints s2)
                        else (Inr (), assign_Height h shapeIndex heightPoints s2))
                  else (Inr (), assign_Width h shapeIndex widthPoints
                                  (assign_Height h shapeIndex heightPoints s2))
                else if heightPoints > 0 then (Inr (), assign_Height h shapeIndex heightPoints s2)
                else if widthPoints > 0 then (Inr (), assign_Width h shapeIndex widthPoints s2)
                else (Inr (), s2)))"

subsection \<open>Headers and footers\<close>

text \<open>
  A header or footer is returned as a reference: the application, the section, the type
  and whether it is a header. \<open>headersFooters.Item\<close> belongs to the automation model
  and throws when the collection has no such member.
\<close>

type_synonym header_footer_ref = "handle \<times> int \<times> int \<times> bool"

definition getHeaderFooter :: "int \<Rightarrow> int \<Rightarrow> bool \<Rightarrow> state \<Rightarrow> header_footer_ref outcome" where
  "getHeaderFooter sectionIndex headerFooterType isHeader s =
     (case getActiveDocument s of
        (Inl e, s1) \<Rightarrow> (Inl e, s1)
      | (Inr (h, d), s1) \<Rightarrow>
          if sectionIndex \<le> 0 \<or> sectionIndex > int (length (Sections d))
          then (Inl (Failed ''Failed to get header/footer.'' (OutOfBounds Section sectionIndex)), s1)
          else
            (let sec = Item (Sections d) sectionIndex;
                 headersFooters = (if isHeader then Headers sec else Footers sec)
             in if headerFooterType < 1 \<or> headerFooterType > 3
                then (Inl (Failed ''Failed to get header/footer.''
                             (InvalidHeaderFooterType headerFooterType)), s1)
                else if headerFooterType > int (length headersFooters)
                then (Inl (Failed ''Failed to get header/footer.''
                             (Automation ''The requested member of the collection does not exist.'')), s1)
                else if \<not> Exists (Item headersFooters headerFooterType)
                then (Inl (Failed ''Failed to get header/footer.''
                             (HeaderFooterMissing isHeader headerFooterType sectionIndex)), s1)
                else (Inr (h, sectionIndex, headerFooterType, isHeader), s1)))"

definition set_header_footer_text :: "int \<Rightarrow> int \<Rightarrow> bool \<Rightarrow> string \<Rightarrow> document \<Rightarrow> document" where
  "set_header_footer_text sec t isHeader text d =
     (let section = Item (Sections d) sec;
          section' =
            (if isHeader
             then section\<lparr>Headers := set_Item (Headers section) t
                                        ((Item (Headers section) t)\<lparr>RangeText := text\<rparr>)\<rparr>
             else section\<lparr>Footers := set_Item (Footers section) t
                                        ((Item (Footers section) t)\<lparr>RangeText := text\<rparr>)\<rparr>)
      in d\<lparr>Sections := set_Item (Sections d) sec section'\<rparr>)"

definition setHeaderFooterText :: "int \<Rightarrow> int \<Rightarrow> bool \<Rightarrow> string \<Rightarrow> state \<Rightarrow> unit outcome" where
  "setHeaderFooterText sectionIndex headerFooterType isHeader text s =
     (case getHeaderFooter sectionIndex headerFooterType isHeader s of
        (Inl e, s1) \<Rightarrow> (Inl e, s1)
      | (Inr (h, sec, t, hdr), s1) \<Rightarrow>
          (Inr (),
           issue (SetHeaderFooterText sec t hdr text)
             (update_document h (set_header_footer_text sec t hdr text) s1)))"

subsection \<open>Selection\<close>

definition selectParagraph :: "int \<Rightarrow> state \<Rightarrow> unit outcome" where
  "selectParagraph paragraphIndex s =
     (case getActiveDocument s of
        (Inl e, s1) \<Rightarrow> (Inl e, s1)
      | (Inr (h, d), s1) \<Rightarrow>
          if paragraphIndex \<le> 0 \<or> paragraphIndex > int (length (Paragraphs d))
          then (Inl (Failed ''Failed to select paragraph.'' (OutOfBounds Paragraph paragraphIndex)), s1)
          else (Inr (), issue (SelectParagraph paragraphIndex) s1))"

section \<open>Tool Registry\<close>

text \<open>
  A tool handler receives the arguments after the schema has filled in the defaults,
  calls the service and turns the outcome into a result: one text segment and the error
  flag, which is unset on success.
\<close>

record tool_result =
  content :: "string list"
  isError :: bool

definition unitName :: "int \<Rightarrow> string" where
  "unitName unit =
     (if unit = 1 then ''character(s)''
      else if unit = 2 then ''word(s)''
      else if unit = 3 then ''sentence(s)''
      else if unit = 4 then ''paragraph(s)''
      else ''unit '' @ string_of_int unit)"

definition deleteTextTool :: "int \<Rightarrow> int \<Rightarrow> state \<Rightarrow> tool_result \<times> state" where
  "deleteTextTool count unit s =
     (case deleteText count unit s of
        (Inr _, s1) \<Rightarrow>
          (let direction = (if count \<ge> 0 then ''forward'' else ''backward'')
           in (\<lparr>content = [''Successfully deleted '' @ string_of_int \<bar>count\<bar> @ '' ''
                              @ unitName unit @ '' '' @ direction @ ''.''],
                isError = False\<rparr>, s1))
      | (Inl e, s1) \<Rightarrow>
          (\<lparr>content = [''Failed to delete text: '' @ message e], isError = True\<rparr>, s1))"

definition findReplaceTool ::
  "string \<Rightarrow> string \<Rightarrow> bool \<Rightarrow> bool \<Rightarrow> bool \<Rightarrow> state \<Rightarrow> tool_result \<times> state" where
  "findReplaceTool findText replaceText matchCase matchWholeWord replaceAll s =
     (case findAndReplace findText replaceText matchCase matchWholeWord replaceAll s of
        (Inr found, s1) \<Rightarrow>
          (let msg = (if found
                      then ''Successfully found and replaced text \"'' @ findText @ ''\".''
                      else ''Text \"'' @ findText @ ''\" not found.'')
           in (\<lparr>content = [msg], isError = (\<not> found \<and> replaceAll)\<rparr>, s1))
      | (Inl e, s1) \<Rightarrow>
          (\<lparr>content = [''Failed to find and replace text: '' @ message e], isError = True\<rparr>, s1))"

definition setInlinePictureSizeTool :: "int \<Rightarrow> rat \<Rightarrow> rat \<Rightarrow> bool \<Rightarrow> state \<Rightarrow> tool_result \<times> state" where
  "setInlinePictureSizeTool shapeIndex heightPoints widthPoints lockAspectRatio s =
     (if heightPoints \<le> 0 \<and> widthPoints \<le> 0
      then (\<lparr>content = [''No size change specified (height and width were not positive values).''],
             isError = False\<rparr>, s)
      else
        (case setInlinePictureSize shapeIndex heightPoints widthPoints lockAspectRatio s of
           (Inr _, s1) \<Rightarrow>
             (\<lparr>content = [''Successfully resized inline picture at index ''
                            @ string_of_int shapeIndex @ ''.''],
               isError = False\<rparr>, s1)
         | (Inl e, s1) \<Rightarrow>
             (\<lparr>content = [''Failed to resize inline picture: '' @ message e], isError = True\<rparr>, s1)))"

section \<open>Vocabulary of the properties\<close>

text \<open>
  \<open>untouched s s'\<close>: between \<open>s\<close> and \<open>s'\<close> no mutating call was issued and no
  document changed. \<open>rejected out e s\<close>: the operation failed, the failure at the root
  of its error is \<open>e\<close>, and nothing was touched. \<open>proceeds out\<close>: the operation did
  not fail on an index check.
\<close>

definition untouched :: "state \<Rightarrow> state \<Rightarrow> bool" where
  "untouched s s' =
     (calls s' = calls s \<and> (\<forall>h. ActiveDocument (apps s' h) = ActiveDocument (apps s h)))"

definition rejected :: "'a outcome \<Rightarrow> error \<Rightarrow> state \<Rightarrow> bool" where
  "rejected out e s =
     (case out of
        (Inl e', s') \<Rightarrow> root_cause e' = e \<and> untouched s s'
      | (Inr _, s') \<Rightarrow> False)"

definition proceeds :: "'a outcome \<Rightarrow> bool" where
  "proceeds out =
     (case out of
        (Inl e, s') \<Rightarrow> \<not> is_out_of_range (root_cause e)
      | (Inr _, s') \<Rightarrow> True)"

text \<open>
  The service is ready on \<open>d\<close> through \<open>h\<close>: it holds \<open>h\<close>, the liveness probe of \<open>h\<close>
  succeeds and \<open>d\<close> is the active document.
\<close>

definition ready :: "state \<Rightarrow> handle \<Rightarrow> document \<Rightarrow> bool" where
  "ready s h d = (wordApp s = Some h \<and> probe (apps s h) \<and> ActiveDocument (apps s h) = Some d)"

section \<open>Sample worlds\<close>

definition sample_document :: document where
  "sample_document =
     \<lparr>Tables = [\<lparr>Rows = [[''a'', ''b''], [''c'', ''d'']], ColumnsCount = 2\<rparr>],
      InlineShapes = [\<lparr>Height = 100, Width = 200, LockAspectRatio = - 1\<rparr>],
      Sections = [\<lparr>Headers = [\<lparr>Exists = True, RangeText = []\<rparr>,
                              \<lparr>Exists = False, RangeText = []\<rparr>,
                              \<lparr>Exists = False, RangeText = []\<rparr>],
                   Footers = [\<lparr>Exists = True, RangeText = []\<rparr>,
                              \<lparr>Exists = False, RangeText = []\<rparr>,
                              \<lparr>Exists = False, RangeText = []\<rparr>]\<rparr>],
      Paragraphs = [''first'', ''second''],
      Selection = \<lparr>Underline = 0\<rparr>,
      Execute = (\<lambda>f. FindText f = ''first'')\<rparr>"

definition sample_app :: app_obj where
  "sample_app =
     \<lparr>Visible = True, probe_fault = None, visible_write_fault = None,
      ActiveDocument = Some sample_document\<rparr>"

definition sample_state :: state where
  "sample_state =
     \<lparr>wordApp = Some 0, apps = (\<lambda>h. sample_app), next_handle = 1,
      construct_fault = None, calls = []\<rparr>"

text \<open>
  A world in which the constructor returns an application whose \<open>Visible\<close> cannot be
  assigned at the moment, while its properties can be read.
\<close>

definition busy_app :: app_obj where
  "busy_app =
     \<lparr>Visible = False, probe_fault = None,
      visible_write_fault = Some ''Call was rejected by callee.'', ActiveDocument = None\<rparr>"

definition busy_state :: state where
  "busy_state =
     \<lparr>wordApp = None, apps = (\<lambda>h. busy_app), next_handle = 0,
      construct_fault = None, calls = []\<rparr>"

text \<open>A world in which the held application has stopped answering.\<close>

definition stale_state :: state where
  "stale_state =
     \<lparr>wordApp = Some 0,
      apps = (\<lambda>h. if h = 0 then sample_app\<lparr>probe_fault := Some ReadDocuments\<rparr> else sample_app),
      next_handle = 1, construct_fault = None, calls = []\<rparr>"

text \<open>
  A document with two pictures: one 72 points high and 96 wide, one 1000000000 high and
  1000000001 wide. \<open>thirteen_and_a_third\<close> is the double that JavaScript prints as
  \<open>13.333333333333334\<close>, the nearest one to \<open>40 / 3\<close>.
\<close>

definition picture_document :: document where
  "picture_document =
     sample_document\<lparr>InlineShapes :=
       [\<lparr>Height = 72, Width = 96, LockAspectRatio = - 1\<rparr>,
        \<lparr>Height = 1000000000, Width = 1000000001, LockAspectRatio = - 1\<rparr>]\<rparr>"

definition picture_state :: state where
  "picture_state =
     \<lparr>wordApp = Some 0, apps = (\<lambda>h. sample_app\<lparr>ActiveDocument := Some picture_document\<rparr>),
      next_handle = 1, construct_fault = None, calls = []\<rparr>"

definition thirteen_and_a_third :: rat where
  "thirteen_and_a_third = 7505999378950827 / 2 ^ 49"

text \<open>The inline shape at index \<open>i\<close> of the active document of the application behind \<open>h\<close>.\<close>

definition shape_at :: "state \<Rightarrow> handle \<Rightarrow> int \<Rightarrow> inline_shape option" where
  "shape_at s h i = map_option (\<lambda>d. Item (InlineShapes d) i) (ActiveDocument (apps s h))"

section \<open>Basic facts\<close>

lemma issue_simps [simp]:
  "calls (issue c s) = calls s @ [c]"
  "apps (issue c s) = apps s"
  "wordApp (issue c s) = wordApp s"
  "next_handle (issue c s) = next_handle s"
  "construct_fault (issue c s) = construct_fault s"
  by (simp_all add: issue_def)

lemma update_document_simps [simp]:
  "calls (update_document h f s) = calls s"
  "wordApp (update_document h f s) = wordApp s"
  "next_handle (update_document h f s) = next_handle s"
  "construct_fault (update_document h f s) = construct_fault s"
  "ActiveDocument (apps (update_document h f s) h) = map_option f (ActiveDocument (apps s h))"
  "h' \<noteq> h \<Longrightarrow> apps (update_document h f s) h' = apps s h'"
  "probe (apps (update_document h f s) h') = probe (apps s h')"
  "Visible (apps (update_document h f s) h') = Visible (apps s h')"
  by (simp_all add: update_document_def probe_def)

lemma Item_set_Item [simp]:
  "1 \<le> i \<Longrightarrow> i \<le> int (length xs) \<Longrightarrow> Item (set_Item xs i x) i = x"
  by (simp add: Item_def set_Item_def)

lemma length_set_Item [simp]: "length (set_Item xs i x) = length xs"
  by (simp add: set_Item_def)

text \<open>Acquiring the application or the active document touches no document.\<close>

lemma createInstance_untouched:
  "createInstance s = (r, s') \<Longrightarrow> untouched s s'"
  by (auto simp: createInstance_def untouched_def Let_def split: option.splits)

lemma getWordApplication_untouched:
  "getWordApplication s = (r, s') \<Longrightarrow> untouched s s'"
  using createInstance_untouched [of "s\<lparr>wordApp := None\<rparr>" r s'] createInstance_untouched [of s r s']
  by (auto simp: getWordApplication_def untouched_def split: option.splits if_splits)

lemma getActiveDocument_untouched:
  "getActiveDocument s = (r, s') \<Longrightarrow> untouched s s'"
  unfolding getActiveDocument_def
  by (auto split: prod.splits sum.splits option.splits dest: getWordApplication_untouched)

lemma getActiveDocument_Inr:
  "getActiveDocument s = (Inr (h, d), s') \<Longrightarrow>
     getWordApplication s = (Inr h, s') \<and> ActiveDocument (apps s' h) = Some d"
  unfolding getActiveDocument_def
  by (auto split: prod.splits sum.splits option.splits)


lemma ready_getActiveDocument: "ready s h d \<Longrightarrow> getActiveDocument s = (Inr (h, d), s)"
  by (simp add: ready_def getActiveDocument_def getWordApplication_def)

lemma sample_ready: "ready sample_state 0 sample_document"
  by (simp add: ready_def sample_state_def sample_app_def probe_def)

section \<open>Automation Handle Manager: acquisition\<close>

text \<open>
  Every handle the service holds was handed out by the constructor; acquisition keeps
  that true.
\<close>

lemma handle_allocated:
  assumes "\<forall>h. wordApp s = Some h \<longrightarrow> h < next_handle s" and "getWordApplication s = (r, s')"
  shows "\<forall>h. wordApp s' = Some h \<longrightarrow> h < next_handle s'"
  using assms
  by (auto simp: getWordApplication_def createInstance_def Let_def split: option.splits if_splits)

text \<open>
  When the constructor itself throws, the failure is the wrapped cause and the handle is
  unset afterwards, whether it was unset before or was discarded by a failed probe.
\<close>

lemma constructor_fault_leaves_handle_unset:
  assumes "construct_fault s = Some m"
    and "wordApp s = None \<or> (\<exists>h. wordApp s = Some h \<and> \<not> probe (apps s h))"
  shows "getWordApplication s = (Inl (Failed init_failed (Automation m)), s\<lparr>wordApp := None\<rparr>)"
  using assms by (auto simp: getWordApplication_def createInstance_def)

text \<open>
  C2. A failed acquisition is to leave the stored handle unset, so that the next call
  retries the creation from scratch. The source stores the constructor's result in
  \<open>wordApp\<close> before it assigns \<open>Visible\<close>, and its \<open>catch\<close> does not reset the field
  (the \<open>catch\<close> of the probe and the one of \<open>quitWord\<close> do). In \<open>busy_state\<close> the
  constructor succeeds and the assignment of \<open>Visible\<close> throws: the call fails with the
  wrapped cause and leaves the handle set; the next call probes that handle, returns it
  without creating anything, and the application it returns is not visible.
\<close>

theorem visible_fault_keeps_handle:
  "getWordApplication busy_state =
     (Inl (Failed init_failed (Automation ''Call was rejected by callee.'')),
      busy_state\<lparr>wordApp := Some 0, next_handle := 1\<rparr>) \<and>
   getWordApplication (busy_state\<lparr>wordApp := Some 0, next_handle := 1\<rparr>) =
     (Inr 0, busy_state\<lparr>wordApp := Some 0, next_handle := 1\<rparr>) \<and>
   \<not> Visible (apps (busy_state\<lparr>wordApp := Some 0, next_handle := 1\<rparr>) 0)"
  by (simp add: getWordApplication_def createInstance_def busy_state_def busy_app_def probe_def Let_def)

text \<open>
  C3. The service has one field for the handle, so it never holds two. When the
  liveness probe of the held handle \<open>h\<close> throws (at any of its three reads), the field
  is reset before the creation runs: the call continues as the creation from a state
  without a handle. If it returns, it returns the handle the constructor has just
  handed out, which is not \<open>h\<close>, and that handle is the one stored; if it fails, \<open>h\<close> is
  not stored either. When the constructor and the assignment of \<open>Visible\<close> do not
  throw, it returns.
\<close>

theorem stale_handle_replaced:
  assumes "wordApp s = Some h" and "\<not> probe (apps s h)" and "h < next_handle s"
  shows "getWordApplication s = createInstance (s\<lparr>wordApp := None\<rparr>) \<and>
         (case getWordApplication s of
            (Inr h', s') \<Rightarrow> h' = next_handle s \<and> h' \<noteq> h \<and> wordApp s' = Some h'
          | (Inl e, s') \<Rightarrow> wordApp s' \<noteq> Some h) \<and>
         (construct_fault s = None \<and> visible_write_fault (apps s (next_handle s)) = None \<longrightarrow>
            fst (getWordApplication s) = Inr (next_handle s))"
  using assms
  by (auto simp: getWordApplication_def createInstance_def Let_def split: option.splits)

theorem stale_handle_replaced_witness:
  "wordApp stale_state = Some 0 \<and> \<not> probe (apps stale_state 0) \<and> 0 < next_handle stale_state \<and>
   fst (getWordApplication stale_state) = Inr 1 \<and> wordApp (snd (getWordApplication stale_state)) = Some 1"
  using stale_handle_replaced [of stale_state 0]
  by (simp add: stale_state_def sample_app_def probe_def getWordApplication_def createInstance_def Let_def)

section \<open>Text operations\<close>

text \<open>
  The calls \<open>deleteText\<close> issues. Once the application is acquired, a count of 0
  returns without issuing any call and without touching a document, and the tool
  reports success. With a document open, a count \<open>k > 0\<close> issues exactly
  \<open>Selection.Delete(unit, k)\<close>, and a count \<open>- k\<close> issues
  \<open>Selection.MoveStart(unit, - k)\<close> followed by \<open>Selection.Delete(unit, k)\<close>. Which
  text the word processor removes on these calls, in particular what \<open>Delete\<close> does
  to a selection that \<open>MoveStart\<close> has extended, is not decided by the service and is
  not modelled.
\<close>

lemma deleteText_calls:
  assumes "getWordApplication s = (Inr h, s1)"
  shows "deleteText 0 unit s = (Inr (), s1) \<and> untouched s s1 \<and>
         \<not> isError (fst (deleteTextTool 0 unit s)) \<and>
         (\<forall>k. k > 0 \<and> ActiveDocument (apps s1 h) \<noteq> None \<longrightarrow>
            deleteText k unit s = (Inr (), s1\<lparr>calls := calls s @ [SelectionDelete unit k]\<rparr>) \<and>
            deleteText (- k) unit s =
              (Inr (), s1\<lparr>calls := calls s @ [SelectionMoveStart unit (- k), SelectionDelete unit k]\<rparr>))"
proof -
  have u: "untouched s s1"
    using assms by (rule getWordApplication_untouched)
  then have c: "calls s1 = calls s"
    by (simp add: untouched_def)
  have zero: "deleteText 0 unit s = (Inr (), s1)"
    using assms by (simp add: deleteText_def)
  then have tool: "\<not> isError (fst (deleteTextTool 0 unit s))"
    by (simp add: deleteTextTool_def)
  have rest: "deleteText k unit s = (Inr (), s1\<lparr>calls := calls s @ [SelectionDelete unit k]\<rparr>) \<and>
      deleteText (- k) unit s =
        (Inr (), s1\<lparr>calls := calls s @ [SelectionMoveStart unit (- k), SelectionDelete unit k]\<rparr>)"
    if "k > 0" and "ActiveDocument (apps s1 h) \<noteq> None" for k
    using assms that c by (auto simp: deleteText_def issue_def)
  show ?thesis
    using u zero tool rest by blast
qed

lemma deleteText_calls_example:
  "fst (deleteText 0 1 sample_state) = Inr () \<and> calls (snd (deleteText 0 1 sample_state)) = [] \<and>
   calls (snd (deleteText 3 2 sample_state)) = [SelectionDelete 2 3] \<and>
   calls (snd (deleteText (- 3) 2 sample_state)) = [SelectionMoveStart 2 (- 3), SelectionDelete 2 3]"
proof -
  have g: "getWordApplication sample_state = (Inr 0, sample_state)"
    by (simp add: getWordApplication_def sample_state_def sample_app_def probe_def)
  have d: "(3::int) > 0 \<and> ActiveDocument (apps sample_state 0) \<noteq> None"
    by (simp add: sample_state_def sample_app_def)
  show ?thesis
    using deleteText_calls [OF g, of 2] deleteText_calls [OF g, of 1] d
    by (simp add: sample_state_def)
qed



lemma findReplace_thrown:
  assumes "findAndReplace findText replaceText matchCase matchWholeWord replaceAll s = (Inl e, s1)"
  shows "isError (fst (findReplaceTool findText replaceText matchCase matchWholeWord replaceAll s))"
  using assms by (simp add: findReplaceTool_def)

lemma sample_find:
  "findAndReplace findText replaceText matchCase matchWholeWord replaceAll sample_state =
     (Inr (findText = ''first''),
      issue (FindExecute \<lparr>FindText = findText, ReplacementText = replaceText, Forward = True,
                       Wrap = 1, Format = False, MatchCase = matchCase,
                       MatchWholeWord = matchWholeWord, MatchWildcards = False,
                       MatchSoundsLike = False, MatchAllWordForms = False,
                       Replace = (if replaceAll then 2 else 1)\<rparr>) sample_state)"
  using ready_getActiveDocument [OF sample_ready]
  by (simp add: findAndReplace_def Let_def sample_document_def)

text \<open>
  C7. When \<open>findAndReplace\<close> returns without throwing, the result of the
  find-and-replace tool is flagged as an error exactly when \<open>replaceAll\<close> was requested
  and the execution reported no match; with \<open>replaceAll\<close> false a not-found outcome is
  not flagged. (When the service throws, the result is flagged by the handler's
  \<open>catch\<close>: \<open>findReplace_thrown\<close>.)
\<close>

theorem findReplace_soft_failure:
  assumes "findAndReplace findText replaceText matchCase matchWholeWord replaceAll s = (Inr found, s1)"
  shows "isError (fst (findReplaceTool findText replaceText matchCase matchWholeWord replaceAll s))
           = (replaceAll \<and> \<not> found) \<and>
         snd (findReplaceTool findText replaceText matchCase matchWholeWord replaceAll s) = s1"
  using assms by (auto simp: findReplaceTool_def Let_def)

theorem findReplace_soft_failure_witness:
  "isError (fst (findReplaceTool ''third'' ''x'' False False True sample_state)) \<and>
   \<not> isError (fst (findReplaceTool ''third'' ''x'' False False False sample_state)) \<and>
   \<not> isError (fst (findReplaceTool ''first'' ''x'' False False True sample_state))"
  using findReplace_soft_failure [OF sample_find, of "''third''" "''x''" False False True]
    findReplace_soft_failure [OF sample_find, of "''third''" "''x''" False False False]
    findReplace_soft_failure [OF sample_find, of "''first''" "''x''" False False True]
  by simp

section \<open>Images\<close>

text \<open>
  C10. With \<open>heightPoints \<le> 0\<close> and \<open>widthPoints \<le> 0\<close> the tool
  \<open>word_setInlinePictureSize\<close> returns its fixed, non-error result and leaves the whole
  state as it was, for every \<open>shapeIndex\<close>: the service is not called, so neither the
  application is acquired nor the index checked, and no out-of-range error arises.
\<close>

theorem tool_skips_service:
  assumes "heightPoints \<le> 0" and "widthPoints \<le> 0"
  shows "setInlinePictureSizeTool shapeIndex heightPoints widthPoints lockAspectRatio s =
           (\<lparr>content = [''No size change specified (height and width were not positive values).''],
             isError = False\<rparr>, s)"
  using assms by (simp add: setInlinePictureSizeTool_def)

theorem tool_skips_service_witness:
  "(- 1 :: rat) \<le> 0 \<and> (0 :: rat) \<le> 0 \<and> \<not> (99 \<le> int (length (InlineShapes sample_document))) \<and>
   \<not> isError (fst (setInlinePictureSizeTool 99 (- 1) 0 True sample_state)) \<and>
   snd (setInlinePictureSizeTool 99 (- 1) 0 True sample_state) = sample_state \<and>
   fst (setInlinePictureSize 99 (- 1) 0 True sample_state) =
     Inl (Failed ''Failed to set inline picture size.'' (OutOfBounds InlineShape 99))"
  using tool_skips_service [of "- 1" 0 99 True sample_state] ready_getActiveDocument [OF sample_ready]
  by (simp add: setInlinePictureSize_def sample_document_def)

lemma set_shape_simps [simp]:
  "length (InlineShapes (set_shape i f d)) = length (InlineShapes d)"
  "1 \<le> i \<Longrightarrow> i \<le> int (length (InlineShapes d)) \<Longrightarrow>
     Item (InlineShapes (set_shape i f d)) i = f (Item (InlineShapes d) i)"
  by (simp_all add: set_shape_def)

lemma assign_calls [simp]:
  "calls (assign_LockAspectRatio h i l s) = calls s @ [SetLockAspectRatio i l]"
  "calls (assign_Height h i v s) = calls s @ [SetHeight i v]"
  "calls (assign_Width h i v s) = calls s @ [SetWidth i v]"
  by (simp_all add: assign_LockAspectRatio_def assign_Height_def assign_Width_def)

lemma assign_document [simp]:
  "ActiveDocument (apps (assign_LockAspectRatio h i l s) h) =
     map_option (set_shape i (\<lambda>sh. sh\<lparr>LockAspectRatio := l\<rparr>)) (ActiveDocument (apps s h))"
  "ActiveDocument (apps (assign_Height h i v s) h) =
     map_option (set_shape i (\<lambda>sh. sh\<lparr>Height := v\<rparr>)) (ActiveDocument (apps s h))"
  "ActiveDocument (apps (assign_Width h i v s) h) =
     map_option (set_shape i (\<lambda>sh. sh\<lparr>Width := v\<rparr>)) (ActiveDocument (apps s h))"
  by (simp_all add: assign_LockAspectRatio_def assign_Height_def assign_Width_def)

lemma shape_at_assign [simp]:
  assumes "ActiveDocument (apps s h) = Some d" and "1 \<le> i" and "i \<le> int (length (InlineShapes d))"
  shows "shape_at (assign_LockAspectRatio h i l s) h i = Some ((Item (InlineShapes d) i)\<lparr>LockAspectRatio := l\<rparr>)"
    and "shape_at (assign_Height h i v s) h i = Some ((Item (InlineShapes d) i)\<lparr>Height := v\<rparr>)"
    and "shape_at (assign_Width h i v s) h i = Some ((Item (InlineShapes d) i)\<lparr>Width := v\<rparr>)"
  using assms by (simp_all add: shape_at_def)

text \<open>The locked aspect ratio is assigned first, whatever the sizes.\<close>

lemma setInlinePictureSize_valid:
  assumes "getActiveDocument s = (Inr (h, d), s1)"
    and "1 \<le> i" and "i \<le> int (length (InlineShapes d))"
  shows "setInlinePictureSize i H W lock s =
     (let shape = Item (InlineShapes d) i;
          s2 = assign_LockAspectRatio h i (if lock then - 1 else 0) s1
      in if H > 0 \<and> W > 0 then
           if lock then
             if js_greater (js_divide W (Width shape)) (js_divide H (Height shape))
             then (Inr (), assign_Width h i W s2)
             else (Inr (), assign_Height h i H s2)
           else (Inr (), assign_Width h i W (assign_Height h i H s2))
         else if H > 0 then (Inr (), assign_Height h i H s2)
         else if W > 0 then (Inr (), assign_Width h i W s2)
         else (Inr (), s2))"
  using assms by (simp add: setInlinePictureSize_def Let_def)

subsection \<open>Rounding to a double\<close>

lemma round_half_even_cases:
  "round_half_even z = \<lfloor>z\<rfloor> \<and> z - of_int \<lfloor>z\<rfloor> \<le> 1 / 2 \<or>
   round_half_even z = \<lfloor>z\<rfloor> + 1 \<and> z - of_int \<lfloor>z\<rfloor> \<ge> 1 / 2"
  by (auto simp: round_half_even_def Let_def)

lemma round_half_even_of_int [simp]: "round_half_even (of_int n) = n"
  by (simp add: round_half_even_def)

lemma round_half_even_numeral [simp]: "round_half_even (numeral n) = numeral n"
  using round_half_even_of_int [of "numeral n"] by simp

text \<open>Evaluation at a number whose floor is known.\<close>

lemma round_half_even_eval:
  assumes "of_int f \<le> z" and "z < of_int f + 1"
  shows "round_half_even z =
     (if z - of_int f < 1 / 2 then f
      else if z - of_int f > 1 / 2 then f + 1
      else if even f then f else f + 1)"
proof -
  have "\<lfloor>z\<rfloor> = f"
    using assms by (intro floor_unique) simp_all
  then show ?thesis
    by (simp add: round_half_even_def Let_def)
qed

lemma round_half_even_mono:
  assumes "z \<le> w"
  shows "round_half_even z \<le> round_half_even w"
proof -
  have fg: "\<lfloor>z\<rfloor> \<le> \<lfloor>w\<rfloor>"
    using assms by (rule floor_mono)
  show ?thesis
  proof (cases "\<lfloor>z\<rfloor> = \<lfloor>w\<rfloor>")
    case True
    then have "z - of_int \<lfloor>z\<rfloor> \<le> w - of_int \<lfloor>w\<rfloor>"
      using assms by simp
    then show ?thesis
      using True by (auto simp: round_half_even_def Let_def)
  next
    case False
    then have "\<lfloor>z\<rfloor> + 1 \<le> \<lfloor>w\<rfloor>"
      using fg by simp
    then show ?thesis
      using round_half_even_cases [of z] round_half_even_cases [of w] by linarith
  qed
qed

lemma round_half_even_le: "z \<le> of_int n \<Longrightarrow> round_half_even z \<le> n"
  using round_half_even_mono [of z "of_int n"] by simp

lemma round_half_even_ge: "of_int n \<le> z \<Longrightarrow> n \<le> round_half_even z"
  using round_half_even_mono [of "of_int n" z] by simp

text \<open>The two searches, for evaluation at a numeral bound.\<close>

lemma quantum_up_unfold:
  "0 < n \<Longrightarrow> quantum_up n q x = (if x < 2 ^ 53 * q then q else quantum_up (n - 1) (2 * q) x)"
  by (cases n) simp_all

lemma quantum_down_unfold:
  "0 < n \<Longrightarrow> quantum_down n q x = (if 2 ^ 52 * q \<le> x then q else quantum_down (n - 1) (q / 2) x)"
  by (cases n) simp_all

text \<open>The spacing is a power of two within the range of the format.\<close>

lemma quantum_up_form: "\<exists>j\<le>n. quantum_up n q x = 2 ^ j * q"
proof (induction n arbitrary: q)
  case 0
  then show ?case by simp
next
  case (Suc n)
  show ?case
  proof (cases "x < 2 ^ 53 * q")
    case True
    then have "quantum_up (Suc n) q x = 2 ^ 0 * q" by simp
    then show ?thesis by blast
  next
    case False
    obtain j where "j \<le> n" "quantum_up n (2 * q) x = 2 ^ j * (2 * q)"
      using Suc.IH [of "2 * q"] by blast
    then have "Suc j \<le> Suc n" "quantum_up (Suc n) q x = 2 ^ Suc j * q"
      using False by simp_all
    then show ?thesis by blast
  qed
qed

lemma quantum_down_form: "\<exists>j\<le>n. quantum_down n q x = q / 2 ^ j"
proof (induction n arbitrary: q)
  case 0
  then show ?case by simp
next
  case (Suc n)
  show ?case
  proof (cases "2 ^ 52 * q \<le> x")
    case True
    then have "quantum_down (Suc n) q x = q / 2 ^ 0" by simp
    then show ?thesis by blast
  next
    case False
    obtain j where "j \<le> n" "quantum_down n (q / 2) x = q / 2 / 2 ^ j"
      using Suc.IH [of "q / 2"] by blast
    then have "Suc j \<le> Suc n" "quantum_down (Suc n) q x = q / 2 ^ Suc j"
      using False by simp_all
    then show ?thesis by blast
  qed
qed

lemma quantum_up_upper: "x < 2 ^ 53 * quantum_up n q x \<or> quantum_up n q x = 2 ^ n * q"
proof (induction n arbitrary: q)
  case 0
  then show ?case by simp
next
  case (Suc n)
  show ?case
    using Suc.IH [of "2 * q"] by (auto simp: mult_ac)
qed

lemma quantum_up_lower: "2 ^ 52 * q \<le> x \<Longrightarrow> 0 < q \<Longrightarrow> 2 ^ 52 * quantum_up n q x \<le> x"
  by (induction n arbitrary: q) auto

lemma quantum_down_lower: "2 ^ 52 * quantum_down n q x \<le> x \<or> quantum_down n q x = q / 2 ^ n"
proof (induction n arbitrary: q)
  case 0
  then show ?case by simp
next
  case (Suc n)
  show ?case
    using Suc.IH [of "q / 2"] by (auto simp: field_simps)
qed

lemma quantum_down_upper: "x < 2 ^ 53 * q \<Longrightarrow> x < 2 ^ 53 * quantum_down n q x"
  by (induction n arbitrary: q) auto

lemma quantum_form: "\<exists>k. - 1074 \<le> k \<and> k \<le> 971 \<and> quantum x = 2 powi k"
proof (cases "2 ^ 53 \<le> x")
  case True
  obtain j where j: "j \<le> 971" "quantum_up 971 1 x = 2 ^ j * 1"
    using quantum_up_form [of 971 1 x] by blast
  have "quantum x = 2 powi (int j)"
    using True j by (simp add: quantum_def)
  then show ?thesis
    using j(1) by (intro exI [of _ "int j"]) simp
next
  case False
  obtain j where j: "j \<le> 1074" "quantum_down 1074 1 x = 1 / 2 ^ j"
    using quantum_down_form [of 1074 1 x] by blast
  have "quantum x = 2 powi (- int j)"
    using False j by (simp add: quantum_def power_int_minus_divide)
  then show ?thesis
    using j(1) by (intro exI [of _ "- int j"]) simp
qed

lemma quantum_pos: "0 < quantum x"
  using quantum_form [of x] by (auto simp: zero_less_power_int)

lemma quantum_upper: "x < 2 ^ 53 * quantum x \<or> quantum x = 2 powi 971"
proof (cases "2 ^ 53 \<le> x")
  case True
  then show ?thesis
    using quantum_up_upper [of x 971 1] by (simp add: quantum_def)
next
  case False
  then show ?thesis
    using quantum_down_upper [of x 1 1074] by (simp add: quantum_def)
qed

lemma quantum_lower: "2 ^ 52 * quantum x \<le> x \<or> quantum x = 2 powi (- 1074)"
proof (cases "2 ^ 53 \<le> x")
  case True
  then have "(2::rat) ^ 52 * 1 \<le> x" by simp
  then show ?thesis
    using True quantum_up_lower [of 1 x 971] by (simp add: quantum_def)
next
  case False
  then show ?thesis
    using quantum_down_lower [of 1074 1 x] by (simp add: quantum_def power_int_minus_divide)
qed

lemma two_powi_less_exp: "(2::rat) powi j < 2 powi k \<Longrightarrow> j < k"
proof (rule ccontr)
  assume less: "(2::rat) powi j < 2 powi k" and "\<not> j < k"
  then have "k \<le> j" by simp
  then have "(2::rat) powi k \<le> 2 powi j"
    by (intro power_int_increasing) simp_all
  then show False
    using less by simp
qed

lemma two_powi_less: "(2::rat) powi j < 2 powi k \<Longrightarrow> 2 * (2::rat) powi j \<le> 2 powi k"
proof -
  assume "(2::rat) powi j < 2 powi k"
  then have "j + 1 \<le> k"
    using two_powi_less_exp [of j k] by simp
  then have "(2::rat) powi (j + 1) \<le> 2 powi k"
    by (intro power_int_increasing) simp_all
  then show ?thesis
    by (simp add: power_int_add mult.commute)
qed

text \<open>
  Of two different spacings the larger is at least twice the smaller; the number with
  the smaller one lies below the top of its binade and the number with the larger one
  at or above the bottom of its binade.
\<close>

lemma quantum_less_double:
  assumes "quantum x < quantum y"
  shows "2 * quantum x \<le> quantum y" and "x < 2 ^ 53 * quantum x" and "2 ^ 52 * quantum y \<le> y"
proof -
  obtain j where j: "- 1074 \<le> j" "j \<le> 971" "quantum x = 2 powi j"
    using quantum_form [of x] by blast
  obtain k where k: "- 1074 \<le> k" "k \<le> 971" "quantum y = 2 powi k"
    using quantum_form [of y] by blast
  have jk: "j < k"
    using assms j(3) k(3) two_powi_less_exp [of j k] by simp
  show "2 * quantum x \<le> quantum y"
    using assms j(3) k(3) two_powi_less [of j k] by simp
  have "(2::rat) powi j < 2 powi 971"
    using jk k(2) by (intro power_int_strict_increasing) simp_all
  then show "x < 2 ^ 53 * quantum x"
    using quantum_upper [of x] j(3) by auto
  have "(2::rat) powi (- 1074) < 2 powi k"
    using jk j(1) by (intro power_int_strict_increasing) simp_all
  then show "2 ^ 52 * quantum y \<le> y"
    using quantum_lower [of y] k(3) by auto
qed

lemma quantum_mono:
  assumes "x \<le> y"
  shows "quantum x \<le> quantum y"
proof (rule ccontr)
  assume "\<not> quantum x \<le> quantum y"
  then have less: "quantum y < quantum x" by simp
  note d = quantum_less_double [OF less]
  have "2 ^ 53 * quantum y \<le> 2 ^ 52 * quantum x"
    using d(1) by simp
  then show False
    using d(2,3) assms by linarith
qed

text \<open>Rounding to a double is monotone.\<close>

lemma rounded_mono:
  assumes "0 \<le> x" and "x \<le> y"
  shows "of_int (round_half_even (x / quantum x)) * quantum x
           \<le> (of_int (round_half_even (y / quantum y)) * quantum y :: rat)"
proof (cases "quantum x = quantum y")
  case True
  have "x / quantum y \<le> y / quantum y"
    using assms(2) quantum_pos [of y] by (simp add: divide_right_mono)
  then have "round_half_even (x / quantum y) \<le> round_half_even (y / quantum y)"
    by (rule round_half_even_mono)
  then show ?thesis
    using True quantum_pos [of y] by simp
next
  case False
  then have less: "quantum x < quantum y"
    using quantum_mono [OF assms(2)] by simp
  note d = quantum_less_double [OF less]
  have "x / quantum x \<le> of_int (2 ^ 53)"
    using d(2) quantum_pos [of x] by (simp add: field_simps)
  then have "round_half_even (x / quantum x) \<le> 2 ^ 53"
    by (rule round_half_even_le)
  then have "(of_int (round_half_even (x / quantum x)) :: rat) \<le> of_int (2 ^ 53)"
    by (simp only: of_int_le_iff)
  then have a: "of_int (round_half_even (x / quantum x)) * quantum x \<le> 2 ^ 53 * quantum x"
    using quantum_pos [of x] by simp
  have "of_int (2 ^ 52) \<le> y / quantum y"
    using d(3) quantum_pos [of y] by (simp add: field_simps)
  then have "2 ^ 52 \<le> round_half_even (y / quantum y)"
    by (rule round_half_even_ge)
  then have "(of_int (2 ^ 52) :: rat) \<le> of_int (round_half_even (y / quantum y))"
    by (simp only: of_int_le_iff)
  then have b: "2 ^ 52 * quantum y \<le> of_int (round_half_even (y / quantum y)) * quantum y"
    using quantum_pos [of y] by simp
  have "2 ^ 53 * quantum x \<le> 2 ^ 52 * quantum y"
    using d(1) by simp
  then show ?thesis
    using a b by linarith
qed

lemma double_of_mono:
  assumes "0 \<le> x" and "x \<le> y"
  shows "\<not> js_greater (double_of x) (double_of y)"
  using rounded_mono [OF assms] assms
  by (auto simp: double_of_def Let_def)

text \<open>
  For positive sizes the rounded width ratio exceeds the rounded height ratio only if
  the exact one does.
\<close>

lemma js_greater_exact:
  assumes "0 < H" and "0 < W" and "0 < Ho" and "0 < Wo"
    and "js_greater (js_divide W Wo) (js_divide H Ho)"
  shows "W / Wo > H / Ho"
proof (rule ccontr)
  assume "\<not> W / Wo > H / Ho"
  then have "W / Wo \<le> H / Ho" by simp
  moreover have "0 \<le> W / Wo"
    using assms(2,4) by simp
  ultimately have "\<not> js_greater (double_of (W / Wo)) (double_of (H / Ho))"
    by (rule double_of_mono [rotated])
  then show False
    using assms(3,4,5) by (simp add: js_divide_def)
qed

text \<open>Evaluation of a rounded quotient from its spacing and its rounded significand.\<close>

lemma double_of_eval:
  assumes "0 \<le> x" and "quantum x = q" and "round_half_even (x / q) = m"
    and "of_int m * q < 2 ^ 1024"
  shows "double_of x = Finite (of_int m * q)"
  using assms by (simp add: double_of_def Let_def)

lemma js_divide_eval:
  assumes "b \<noteq> 0" and "0 \<le> a / b" and "quantum (a / b) = q" and "round_half_even (a / b / q) = m"
    and "of_int m * q < 2 ^ 1024"
  shows "js_divide a b = Finite (of_int m * q)"
  using assms double_of_eval [of "a / b" q m] by (simp add: js_divide_def)

text \<open>The quotients of the sample calls.\<close>

lemma sample_quotients:
  "js_divide 150 200 = Finite (3 / 4)"
  "js_divide 50 100 = Finite (1 / 2)"
proof -
  have q: "quantum (150 / 200) = 1 / 2 ^ 53" "quantum (50 / 100) = 1 / 2 ^ 53"
    by (simp_all add: quantum_def quantum_down_unfold)
  have r: "round_half_even (150 / 200 / (1 / 2 ^ 53)) = 6755399441055744"
    "round_half_even (50 / 100 / (1 / 2 ^ 53)) = 4503599627370496"
    by simp_all
  show "js_divide 150 200 = Finite (3 / 4)"
    using js_divide_eval [OF _ _ q(1) r(1)] by simp
  show "js_divide 50 100 = Finite (1 / 2)"
    using js_divide_eval [OF _ _ q(2) r(2)] by simp
qed

lemma picture_quotients:
  "js_divide thirteen_and_a_third 96 = Finite (5003999585967218 / 2 ^ 55)"
  "js_divide 10 72 = Finite (5003999585967218 / 2 ^ 55)"
proof -
  have q: "quantum (thirteen_and_a_third / 96) = 1 / 2 ^ 55" "quantum (10 / 72) = 1 / 2 ^ 55"
    by (simp_all add: thirteen_and_a_third_def quantum_def quantum_down_unfold)
  have r: "round_half_even (thirteen_and_a_third / 96 / (1 / 2 ^ 55)) = 5003999585967218"
    "round_half_even (10 / 72 / (1 / 2 ^ 55)) = 5003999585967218"
    using round_half_even_eval [of 5003999585967217 "10 / 72 / (1 / 2 ^ 55)"]
    by (simp_all add: thirteen_and_a_third_def)
  show "js_divide thirteen_and_a_third 96 = Finite (5003999585967218 / 2 ^ 55)"
    using js_divide_eval [OF _ _ q(1) r(1)] by (simp add: thirteen_and_a_third_def)
  show "js_divide 10 72 = Finite (5003999585967218 / 2 ^ 55)"
    using js_divide_eval [OF _ _ q(2) r(2)] by simp
qed

lemma large_picture_quotients:
  "js_divide 1000000000 1000000001 = Finite (9007199245733793 / 2 ^ 53)"
  "js_divide 999999999 1000000000 = Finite (9007199245733793 / 2 ^ 53)"
proof -
  have q: "quantum (1000000000 / 1000000001) = 1 / 2 ^ 53" "quantum (999999999 / 1000000000) = 1 / 2 ^ 53"
    by (simp_all add: quantum_def quantum_down_unfold)
  have r1: "round_half_even (1000000000 / 1000000001 / (1 / 2 ^ 53)) = 9007199245733793"
    using round_half_even_eval [of 9007199245733792 "1000000000 / 1000000001 / (1 / 2 ^ 53)"] by simp
  have r2: "round_half_even (999999999 / 1000000000 / (1 / 2 ^ 53)) = 9007199245733793"
    using round_half_even_eval [of 9007199245733792 "999999999 / 1000000000 / (1 / 2 ^ 53)"] by simp
  show "js_divide 1000000000 1000000001 = Finite (9007199245733793 / 2 ^ 53)"
    using js_divide_eval [OF _ _ q(1) r1] by simp
  show "js_divide 999999999 1000000000 = Finite (9007199245733793 / 2 ^ 53)"
    using js_divide_eval [OF _ _ q(2) r2] by simp
qed

lemma picture_ready: "ready picture_state 0 picture_document"
  by (simp add: ready_def picture_state_def sample_app_def probe_def)

text \<open>
  C5. The specification compares the exact ratios: whenever \<open>W / Wo > H / Ho\<close> the
  width is to be assigned. The source compares the two quotients as doubles, and two
  different ratios can round to the same double; the comparison then fails and the
  height is assigned. On the picture 72 high and 96 wide, with \<open>H = 10\<close> and
  \<open>W = 13.333333333333334\<close>, and on the picture 1000000000 high and 1000000001 wide,
  with \<open>H = 999999999\<close> and \<open>W = 1000000000\<close>, the width ratio is the greater one and
  \<open>Height\<close> is what the service assigns.
\<close>

theorem equal_doubles_assign_height:
  "(10::rat) > 0 \<and> thirteen_and_a_third > 0 \<and>
   shape_at picture_state 0 1 = Some \<lparr>Height = 72, Width = 96, LockAspectRatio = - 1\<rparr> \<and>
   thirteen_and_a_third / 96 > 10 / 72 \<and>
   calls (snd (setInlinePictureSize 1 10 thirteen_and_a_third True picture_state)) =
     [SetLockAspectRatio 1 (- 1), SetHeight 1 10] \<and>
   shape_at picture_state 0 2 =
     Some \<lparr>Height = 1000000000, Width = 1000000001, LockAspectRatio = - 1\<rparr> \<and>
   (1000000000::rat) / 1000000001 > 999999999 / 1000000000 \<and>
   calls (snd (setInlinePictureSize 2 999999999 1000000000 True picture_state)) =
     [SetLockAspectRatio 2 (- 1), SetHeight 2 999999999]"
proof -
  have sh: "InlineShapes picture_document =
      [\<lparr>Height = 72, Width = 96, LockAspectRatio = - 1\<rparr>,
       \<lparr>Height = 1000000000, Width = 1000000001, LockAspectRatio = - 1\<rparr>]"
    by (simp add: picture_document_def)
  have at: "shape_at picture_state 0 1 = Some \<lparr>Height = 72, Width = 96, LockAspectRatio = - 1\<rparr>"
    "shape_at picture_state 0 2 =
       Some \<lparr>Height = 1000000000, Width = 1000000001, LockAspectRatio = - 1\<rparr>"
    by (simp_all add: shape_at_def picture_state_def sh Item_def)
  have c: "calls picture_state = []"
    by (simp add: picture_state_def)
  have one: "calls (snd (setInlinePictureSize 1 10 thirteen_and_a_third True picture_state)) =
      [SetLockAspectRatio 1 (- 1), SetHeight 1 10]"
    using setInlinePictureSize_valid [OF ready_getActiveDocument [OF picture_ready],
        of 1 10 thirteen_and_a_third True] c
    by (simp add: Let_def sh Item_def picture_quotients)
  have two: "calls (snd (setInlinePictureSize 2 999999999 1000000000 True picture_state)) =
      [SetLockAspectRatio 2 (- 1), SetHeight 2 999999999]"
    using setInlinePictureSize_valid [OF ready_getActiveDocument [OF picture_ready],
        of 2 999999999 1000000000 True] c
    by (simp add: Let_def sh Item_def large_picture_quotients)
  show ?thesis
    using at one two by (simp add: thirteen_and_a_third_def)
qed

text \<open>
  C5, amended. For a valid shape index, \<open>H > 0\<close>, \<open>W > 0\<close> and a locked aspect ratio,
  \<open>setInlinePictureSize\<close> assigns \<open>LockAspectRatio\<close> and then exactly one dimension,
  chosen by comparing the two ratios as doubles, each quotient rounded to the nearest
  double: when the rounded \<open>W / Wo\<close> is greater than the rounded \<open>H / Ho\<close> it assigns
  \<open>Width := W\<close> and issues no assignment of \<open>Height\<close>; otherwise it assigns
  \<open>Height := H\<close> and issues no assignment of \<open>Width\<close>. For positive original sizes the
  width is assigned only if \<open>W / Wo > H / Ho\<close> holds exactly.
\<close>

theorem locked_resize_dominant_dimension:
  assumes "getActiveDocument s = (Inr (h, d), s1)"
    and "shapeIndex \<in> {1..int (length (InlineShapes d))}"
    and "H > 0" and "W > 0"
  shows "(let shape = Item (InlineShapes d) shapeIndex;
              (r, s') = setInlinePictureSize shapeIndex H W True s
          in r = Inr () \<and>
             (if js_greater (js_divide W (Width shape)) (js_divide H (Height shape))
              then calls s' = calls s @ [SetLockAspectRatio shapeIndex (- 1), SetWidth shapeIndex W] \<and>
                   shape_at s' h shapeIndex = Some (shape\<lparr>LockAspectRatio := - 1, Width := W\<rparr>)
              else calls s' = calls s @ [SetLockAspectRatio shapeIndex (- 1), SetHeight shapeIndex H] \<and>
                   shape_at s' h shapeIndex = Some (shape\<lparr>LockAspectRatio := - 1, Height := H\<rparr>)) \<and>
             (Height shape > 0 \<and> Width shape > 0 \<and>
              js_greater (js_divide W (Width shape)) (js_divide H (Height shape)) \<longrightarrow>
                W / Width shape > H / Height shape))"
proof -
  have i: "1 \<le> shapeIndex" "shapeIndex \<le> int (length (InlineShapes d))"
    using assms(2) by simp_all
  have c: "calls s1 = calls s"
    using getActiveDocument_untouched [OF assms(1)] by (simp add: untouched_def)
  have d: "ActiveDocument (apps s1 h) = Some d"
    using getActiveDocument_Inr [OF assms(1)] by simp
  have l: "ActiveDocument (apps (assign_LockAspectRatio h shapeIndex (- 1) s1) h)
             = Some (set_shape shapeIndex (\<lambda>sh. sh\<lparr>LockAspectRatio := - 1\<rparr>) d)"
    using d by simp
  have exact: "W / Wo > H / Ho" if "Ho > 0" "Wo > 0" "js_greater (js_divide W Wo) (js_divide H Ho)" for Ho Wo
    using js_greater_exact [OF assms(3,4) that] .
  show ?thesis
    using setInlinePictureSize_valid [OF assms(1) i, of H W True] assms(3,4) c i
      shape_at_assign(2,3) [OF l] exact
    by (simp add: Let_def)
qed

theorem locked_resize_dominant_dimension_witness:
  "1 \<in> {1..int (length (InlineShapes sample_document))} \<and> (50::rat) > 0 \<and> (150::rat) > 0 \<and>
   calls (snd (setInlinePictureSize 1 50 150 True sample_state)) =
     [SetLockAspectRatio 1 (- 1), SetWidth 1 150] \<and>
   shape_at (snd (setInlinePictureSize 1 50 150 True sample_state)) 0 1 =
     Some \<lparr>Height = 100, Width = 150, LockAspectRatio = - 1\<rparr> \<and>
   calls (snd (setInlinePictureSize 1 80 100 True sample_state)) =
     [SetLockAspectRatio 1 (- 1), SetHeight 1 80] \<and>
   shape_at (snd (setInlinePictureSize 1 80 100 True sample_state)) 0 1 =
     Some \<lparr>Height = 80, Width = 200, LockAspectRatio = - 1\<rparr>"
proof -
  have i: "1 \<in> {1..int (length (InlineShapes sample_document))}"
    by (simp add: sample_document_def)
  have sh: "Item (InlineShapes sample_document) 1 = \<lparr>Height = 100, Width = 200, LockAspectRatio = - 1\<rparr>"
    by (simp add: sample_document_def Item_def)
  have c: "calls sample_state = []"
    by (simp add: sample_state_def)
  have w: "js_greater (js_divide 150 200) (js_divide 50 100)"
    by (simp add: sample_quotients)
  have n: "\<not> js_greater (js_divide 100 200) (js_divide 80 100)"
    using js_greater_exact [of 80 100 100 200] by auto
  show ?thesis
    using locked_resize_dominant_dimension [OF ready_getActiveDocument [OF sample_ready] i, of 50 150]
      locked_resize_dominant_dimension [OF ready_getActiveDocument [OF sample_ready] i, of 80 100]
      i sh c w n
    by (simp add: Let_def case_prod_beta)
qed

text \<open>
  C9. The specification says that with neither size positive no property of the shape
  changes, the aspect-ratio lock included. That fails: \<open>LockAspectRatio\<close> is assigned
  before the sizes are looked at. On the sample document, whose picture has a locked
  aspect ratio, a call with both sizes \<open>- 1\<close> and \<open>lockAspectRatio = false\<close> unlocks it.
\<close>

theorem lock_assigned_without_size:
  "shape_at sample_state 0 1 = Some \<lparr>Height = 100, Width = 200, LockAspectRatio = - 1\<rparr> \<and>
   \<not> (- 1 :: rat) > 0 \<and>
   fst (setInlinePictureSize 1 (- 1) (- 1) False sample_state) = Inr () \<and>
   shape_at (snd (setInlinePictureSize 1 (- 1) (- 1) False sample_state)) 0 1 =
     Some \<lparr>Height = 100, Width = 200, LockAspectRatio = 0\<rparr>"
proof -
  have i: "(1::int) \<le> 1" "1 \<le> int (length (InlineShapes sample_document))"
    by (simp_all add: sample_document_def)
  have sh: "Item (InlineShapes sample_document) 1 = \<lparr>Height = 100, Width = 200, LockAspectRatio = - 1\<rparr>"
    by (simp add: sample_document_def Item_def)
  have d: "ActiveDocument (apps sample_state 0) = Some sample_document"
    by (simp add: sample_state_def sample_app_def)
  show ?thesis
    using setInlinePictureSize_valid [OF ready_getActiveDocument [OF sample_ready] i, of "- 1" "- 1" False]
      shape_at_assign(1) [OF d i] sh d
    by (simp add: Let_def shape_at_def)
qed

text \<open>
  C9, amended. For a valid shape index, every call, whatever the sizes, first assigns
  \<open>LockAspectRatio\<close> from the \<open>lockAspectRatio\<close> argument (\<open>- 1\<close> or 0), and the shape
  carries that value afterwards. Beyond that: if only the height is positive, only
  \<open>Height\<close> is assigned; if only the width is positive, only \<open>Width\<close> is assigned; if
  neither is positive, no size is assigned and \<open>Height\<close> and \<open>Width\<close> keep their values.
\<close>

theorem resize_single_dimension:
  assumes "getActiveDocument s = (Inr (h, d), s1)"
    and "shapeIndex \<in> {1..int (length (InlineShapes d))}"
  shows "(let shape = Item (InlineShapes d) shapeIndex;
              l = (if lock then - 1 else 0);
              (r, s') = setInlinePictureSize shapeIndex H W lock s
          in r = Inr () \<and>
             (\<exists>rest. calls s' = calls s @ SetLockAspectRatio shapeIndex l # rest) \<and>
             map_option LockAspectRatio (shape_at s' h shapeIndex) = Some l \<and>
             (H > 0 \<and> \<not> W > 0 \<longrightarrow>
                calls s' = calls s @ [SetLockAspectRatio shapeIndex l, SetHeight shapeIndex H] \<and>
                shape_at s' h shapeIndex = Some (shape\<lparr>LockAspectRatio := l, Height := H\<rparr>)) \<and>
             (\<not> H > 0 \<and> W > 0 \<longrightarrow>
                calls s' = calls s @ [SetLockAspectRatio shapeIndex l, SetWidth shapeIndex W] \<and>
                shape_at s' h shapeIndex = Some (shape\<lparr>LockAspectRatio := l, Width := W\<rparr>)) \<and>
             (\<not> H > 0 \<and> \<not> W > 0 \<longrightarrow>
                calls s' = calls s @ [SetLockAspectRatio shapeIndex l] \<and>
                shape_at s' h shapeIndex = Some (shape\<lparr>LockAspectRatio := l\<rparr>)))"
proof -
  have i: "1 \<le> shapeIndex" "shapeIndex \<le> int (length (InlineShapes d))"
    using assms(2) by simp_all
  have c: "calls s1 = calls s"
    using getActiveDocument_untouched [OF assms(1)] by (simp add: untouched_def)
  have d: "ActiveDocument (apps s1 h) = Some d"
    using getActiveDocument_Inr [OF assms(1)] by simp
  show ?thesis
    using setInlinePictureSize_valid [OF assms(1) i, of H W lock] c i d
    by (simp add: Let_def shape_at_def)
qed

theorem resize_single_dimension_witness:
  "1 \<in> {1..int (length (InlineShapes sample_document))} \<and> (60::rat) > 0 \<and> \<not> (0::rat) > 0 \<and>
   calls (snd (setInlinePictureSize 1 60 0 True sample_state)) =
     [SetLockAspectRatio 1 (- 1), SetHeight 1 60] \<and>
   calls (snd (setInlinePictureSize 1 0 60 True sample_state)) =
     [SetLockAspectRatio 1 (- 1), SetWidth 1 60] \<and>
   calls (snd (setInlinePictureSize 1 0 0 True sample_state)) = [SetLockAspectRatio 1 (- 1)] \<and>
   map_option LockAspectRatio (shape_at (snd (setInlinePictureSize 1 30 40 False sample_state)) 0 1) =
     Some 0"
proof -
  have i: "1 \<in> {1..int (length (InlineShapes sample_document))}"
    by (simp add: sample_document_def)
  have c: "calls sample_state = []"
    by (simp add: sample_state_def)
  show ?thesis
    using resize_single_dimension [OF ready_getActiveDocument [OF sample_ready] i, of True 60 0]
      resize_single_dimension [OF ready_getActiveDocument [OF sample_ready] i, of True 0 60]
      resize_single_dimension [OF ready_getActiveDocument [OF sample_ready] i, of True 0 0]
      resize_single_dimension [OF ready_getActiveDocument [OF sample_ready] i, of False 30 40]
      i c
    by (simp add: Let_def case_prod_beta)
qed

section \<open>Tables\<close>

text \<open>Where the new element lands when a reference element is passed to \<open>Add\<close>.\<close>

lemma insert_before_position:
  assumes "1 \<le> b" and "b \<le> int (length xs)"
  shows "Item (insert_before (Some b) x xs) b = x"
    and "Item (insert_before (Some b) x xs) (b + 1) = Item xs b"
    and "length (insert_before (Some b) x xs) = Suc (length xs)"
    and "\<forall>j. 1 \<le> j \<and> j < b \<longrightarrow> Item (insert_before (Some b) x xs) j = Item xs j"
  using assms
  by (auto simp: insert_before_def Item_def nth_append min_def nat_diff_distrib' nat_add_distrib
      nat_less_iff)

lemma insertTableRow_valid:
  assumes "getActiveDocument s = (Inr (h, d), s1)"
    and "1 \<le> t" and "t \<le> int (length (Tables d))"
  shows "insertTableRow t beforeRowIndex s =
     (let tbl = Item (Tables d) t;
          add = (\<lambda>refRow.
                   (Inr (case refRow of None \<Rightarrow> int (length (Rows tbl)) + 1 | Some b \<Rightarrow> b),
                    issue (RowsAdd t refRow)
                      (update_document h
                         (\<lambda>d. d\<lparr>Tables := set_Item (Tables d) t (Rows_Add refRow (Item (Tables d) t))\<rparr>) s1)))
      in case beforeRowIndex of
           Some b \<Rightarrow>
             if b \<le> 0 \<or> b > int (length (Rows tbl)) + 1
             then (Inl (Failed ''Failed to insert table row.'' (InsertionOutOfBounds Row b)), s1)
             else add (if b \<le> int (length (Rows tbl)) then Some b else None)
         | None \<Rightarrow> add None)"
  using assms by (simp add: insertTableRow_def Let_def)

text \<open>
  C8. For a valid table index and a table of \<open>N\<close> rows, \<open>insertTableRow\<close> with
  \<open>beforeRowIndex = N + 1\<close> has the same outcome, result and state, as the call with
  \<open>beforeRowIndex\<close> left out: \<open>Rows.Add\<close> is called without a reference row and the new
  row is appended after the last one. For \<open>beforeRowIndex = b\<close> in \<open>[1, N]\<close> row \<open>b\<close>
  is the reference row: the new row is inserted before it (it takes position \<open>b\<close>, see
  \<open>insert_before_position\<close>).
\<close>

theorem insertTableRow_append:
  assumes "getActiveDocument s = (Inr (h, d), s1)"
    and "tableIndex \<in> {1..int (length (Tables d))}"
  shows "(let tbl = Item (Tables d) tableIndex;
              N = int (length (Rows tbl));
              new = replicate (ColumnsCount tbl) [];
              (r, s') = insertTableRow tableIndex None s
          in insertTableRow tableIndex (Some (N + 1)) s = insertTableRow tableIndex None s \<and>
             r = Inr (N + 1) \<and>
             calls s' = calls s @ [RowsAdd tableIndex None] \<and>
             ActiveDocument (apps s' h) =
               Some (d\<lparr>Tables := set_Item (Tables d) tableIndex (tbl\<lparr>Rows := Rows tbl @ [new]\<rparr>)\<rparr>) \<and>
             (\<forall>b. b \<in> {1..N} \<longrightarrow>
                (let (rb, sb) = insertTableRow tableIndex (Some b) s
                 in rb = Inr b \<and>
                    calls sb = calls s @ [RowsAdd tableIndex (Some b)] \<and>
                    ActiveDocument (apps sb h) =
                      Some (d\<lparr>Tables := set_Item (Tables d) tableIndex
                               (tbl\<lparr>Rows := take (nat (b - 1)) (Rows tbl) @ [new]
                                               @ drop (nat (b - 1)) (Rows tbl)\<rparr>)\<rparr>))))"
proof -
  have i: "1 \<le> tableIndex" "tableIndex \<le> int (length (Tables d))"
    using assms(2) by simp_all
  have c: "calls s1 = calls s"
    using getActiveDocument_untouched [OF assms(1)] by (simp add: untouched_def)
  have d: "ActiveDocument (apps s1 h) = Some d"
    using getActiveDocument_Inr [OF assms(1)] by simp
  show ?thesis
    using insertTableRow_valid [OF assms(1) i] c d
    by (simp add: Let_def Rows_Add_def insert_before_def)
qed

theorem insertTableRow_append_witness:
  "1 \<in> {1..int (length (Tables sample_document))} \<and>
   insertTableRow 1 (Some 3) sample_state = insertTableRow 1 None sample_state \<and>
   fst (insertTableRow 1 None sample_state) = Inr 3 \<and>
   map_option Tables (ActiveDocument (apps (snd (insertTableRow 1 None sample_state)) 0)) =
     Some [\<lparr>Rows = [[''a'', ''b''], [''c'', ''d''], [[], []]], ColumnsCount = 2\<rparr>] \<and>
   (2::int) \<in> {1..2} \<and>
   map_option Tables (ActiveDocument (apps (snd (insertTableRow 1 (Some 2) sample_state)) 0)) =
     Some [\<lparr>Rows = [[''a'', ''b''], [[], []], [''c'', ''d'']], ColumnsCount = 2\<rparr>]"
proof -
  have i: "1 \<in> {1..int (length (Tables sample_document))}"
    by (simp add: sample_document_def)
  have t: "Tables sample_document = [\<lparr>Rows = [[''a'', ''b''], [''c'', ''d'']], ColumnsCount = 2\<rparr>]"
    by (simp add: sample_document_def)
  have r: "replicate 2 [] = [[], []]"
    by (simp add: numeral_2_eq_2)
  have two: "(2::int) \<in> {1..2}"
    by simp
  show ?thesis
    using insertTableRow_append [OF ready_getActiveDocument [OF sample_ready] i] i two
    by (simp add: Let_def case_prod_beta t Item_def set_Item_def r)
qed

section \<open>Index validation\<close>

lemma rejectedI:
  "out = (Inl e', s') \<Longrightarrow> root_cause e' = e \<Longrightarrow> untouched s s' \<Longrightarrow> rejected out e s"
  by (simp add: rejected_def)

lemma proceeds_Inr [simp]: "proceeds (Inr x, s')"
  by (simp add: proceeds_def)

lemma proceeds_Inl [simp]: "proceeds (Inl e, s') = (\<not> is_out_of_range (root_cause e))"
  by (simp add: proceeds_def)

lemma getTableCell_valid:
  assumes "getActiveDocument s = (Inr (h, d), s1)"
  shows "getTableCell t r c s =
     (if t \<le> 0 \<or> t > int (length (Tables d))
      then (Inl (Failed ''Failed to get cell.'' (OutOfBounds Table t)), s1)
      else case Cell (Item (Tables d) t) r c of
             Inl e \<Rightarrow> (Inl (Failed ''Failed to get cell.'' e), s1)
           | Inr x \<Rightarrow> (Inr (h, t, r, c), s1))"
  using assms by (simp add: getTableCell_def)

lemma Cell_error: "Cell t r c = Inl e \<Longrightarrow> \<not> is_out_of_range (root_cause e)"
  by (auto simp: Cell_def split: if_splits)

lemma table_index_rejected:
  assumes "getActiveDocument s = (Inr (h, d), s1)" and "t \<notin> {1..int (length (Tables d))}"
  shows "rejected (getTableCell t r c s) (OutOfBounds Table t) s"
    and "rejected (setTableCellText t r c text s) (OutOfBounds Table t) s"
    and "rejected (insertTableRow t before s) (OutOfBounds Table t) s"
    and "rejected (insertTableColumn t before s) (OutOfBounds Table t) s"
    and "rejected (applyTableAutoFormat t formatName flags s) (OutOfBounds Table t) s"
proof -
  have u: "untouched s s1"
    using assms(1) by (rule getActiveDocument_untouched)
  have o: "t \<le> 0 \<or> t > int (length (Tables d))"
    using assms(2) by auto
  have g: "getTableCell t r c s = (Inl (Failed ''Failed to get cell.'' (OutOfBounds Table t)), s1)"
    using o by (simp add: getTableCell_valid [OF assms(1)])
  show "rejected (getTableCell t r c s) (OutOfBounds Table t) s"
    using g u by (simp add: rejected_def)
  show "rejected (setTableCellText t r c text s) (OutOfBounds Table t) s"
    using g u by (simp add: setTableCellText_def rejected_def)
  show "rejected (insertTableRow t before s) (OutOfBounds Table t) s"
    using assms(1) o u by (simp add: insertTableRow_def rejected_def)
  show "rejected (insertTableColumn t before s) (OutOfBounds Table t) s"
    using assms(1) o u by (simp add: insertTableColumn_def rejected_def)
  show "rejected (applyTableAutoFormat t formatName flags s) (OutOfBounds Table t) s"
    using assms(1) o u by (simp add: applyTableAutoFormat_def rejected_def)
qed

lemma table_index_proceeds:
  assumes "getActiveDocument s = (Inr (h, d), s1)" and "t \<in> {1..int (length (Tables d))}"
  shows "proceeds (getTableCell t r c s)"
    and "proceeds (setTableCellText t r c text s)"
    and "proceeds (applyTableAutoFormat t formatName flags s)"
    and "proceeds (insertTableRow t None s)"
    and "proceeds (insertTableColumn t None s)"
proof -
  have o: "\<not> (t \<le> 0 \<or> t > int (length (Tables d)))"
    using assms(2) by auto
  have g: "getTableCell t r c s =
      (case Cell (Item (Tables d) t) r c of
         Inl e \<Rightarrow> (Inl (Failed ''Failed to get cell.'' e), s1)
       | Inr x \<Rightarrow> (Inr (h, t, r, c), s1))"
    using o by (simp add: getTableCell_valid [OF assms(1)])
  show "proceeds (getTableCell t r c s)"
    unfolding g by (cases "Cell (Item (Tables d) t) r c") (simp_all add: Cell_error)
  show "proceeds (setTableCellText t r c text s)"
    unfolding setTableCellText_def g
    by (cases "Cell (Item (Tables d) t) r c") (simp_all add: Cell_error)
  show "proceeds (applyTableAutoFormat t formatName flags s)"
    using assms(1) o by (simp add: applyTableAutoFormat_def Let_def)
  show "proceeds (insertTableRow t None s)"
    using assms(1) o by (simp add: insertTableRow_def Let_def)
  show "proceeds (insertTableColumn t None s)"
    using assms(1) o by (simp add: insertTableColumn_def Let_def)
qed

lemma insertion_index:
  assumes "getActiveDocument s = (Inr (h, d), s1)" and "t \<in> {1..int (length (Tables d))}"
  shows "b \<in> {1..int (length (Rows (Item (Tables d) t))) + 1} \<Longrightarrow> proceeds (insertTableRow t (Some b) s)"
    and "b \<notin> {1..int (length (Rows (Item (Tables d) t))) + 1} \<Longrightarrow>
           rejected (insertTableRow t (Some b) s) (InsertionOutOfBounds Row b) s"
    and "b \<in> {1..int (ColumnsCount (Item (Tables d) t)) + 1} \<Longrightarrow> proceeds (insertTableColumn t (Some b) s)"
    and "b \<notin> {1..int (ColumnsCount (Item (Tables d) t)) + 1} \<Longrightarrow>
           rejected (insertTableColumn t (Some b) s) (InsertionOutOfBounds Column b) s"
proof -
  have u: "untouched s s1"
    using assms(1) by (rule getActiveDocument_untouched)
  have o: "\<not> (t \<le> 0 \<or> t > int (length (Tables d)))"
    using assms(2) by auto
  show "b \<in> {1..int (length (Rows (Item (Tables d) t))) + 1} \<Longrightarrow> proceeds (insertTableRow t (Some b) s)"
    using assms(1) o by (simp add: insertTableRow_def Let_def)
  show "b \<notin> {1..int (length (Rows (Item (Tables d) t))) + 1} \<Longrightarrow>
           rejected (insertTableRow t (Some b) s) (InsertionOutOfBounds Row b) s"
    using assms(1) o u by (auto simp: insertTableRow_def Let_def rejected_def)
  show "b \<in> {1..int (ColumnsCount (Item (Tables d) t)) + 1} \<Longrightarrow> proceeds (insertTableColumn t (Some b) s)"
    using assms(1) o by (simp add: insertTableColumn_def Let_def)
  show "b \<notin> {1..int (ColumnsCount (Item (Tables d) t)) + 1} \<Longrightarrow>
           rejected (insertTableColumn t (Some b) s) (InsertionOutOfBounds Column b) s"
    using assms(1) o u by (auto simp: insertTableColumn_def Let_def rejected_def)
qed

lemma shape_index:
  assumes "getActiveDocument s = (Inr (h, d), s1)"
  shows "i \<notin> {1..int (length (InlineShapes d))} \<Longrightarrow>
           rejected (setInlinePictureSize i H W lock s) (OutOfBounds InlineShape i) s"
    and "i \<in> {1..int (length (InlineShapes d))} \<Longrightarrow> proceeds (setInlinePictureSize i H W lock s)"
proof -
  have u: "untouched s s1"
    using assms(1) by (rule getActiveDocument_untouched)
  show "i \<notin> {1..int (length (InlineShapes d))} \<Longrightarrow>
           rejected (setInlinePictureSize i H W lock s) (OutOfBounds InlineShape i) s"
    using assms(1) u by (auto simp: setInlinePictureSize_def rejected_def)
  show "i \<in> {1..int (length (InlineShapes d))} \<Longrightarrow> proceeds (setInlinePictureSize i H W lock s)"
    using assms(1) by (simp add: setInlinePictureSize_valid Let_def)
qed

lemma getHeaderFooter_valid:
  assumes "getActiveDocument s = (Inr (h, d), s1)"
  shows "getHeaderFooter sec t isHeader s =
     (if sec \<le> 0 \<or> sec > int (length (Sections d))
      then (Inl (Failed ''Failed to get header/footer.'' (OutOfBounds Section sec)), s1)
      else
        (let headersFooters = (if isHeader then Headers (Item (Sections d) sec)
                               else Footers (Item (Sections d) sec))
         in if t < 1 \<or> t > 3
            then (Inl (Failed ''Failed to get header/footer.'' (InvalidHeaderFooterType t)), s1)
            else if t > int (length headersFooters)
            then (Inl (Failed ''Failed to get header/footer.''
                         (Automation ''The requested member of the collection does not exist.'')), s1)
            else if \<not> Exists (Item headersFooters t)
            then (Inl (Failed ''Failed to get header/footer.'' (HeaderFooterMissing isHeader t sec)), s1)
            else (Inr (h, sec, t, isHeader), s1)))"
  using assms by (simp add: getHeaderFooter_def Let_def)

lemma section_index:
  assumes "getActiveDocument s = (Inr (h, d), s1)"
  shows "sec \<notin> {1..int (length (Sections d))} \<Longrightarrow>
           rejected (getHeaderFooter sec t isHeader s) (OutOfBounds Section sec) s"
    and "sec \<notin> {1..int (length (Sections d))} \<Longrightarrow>
           rejected (setHeaderFooterText sec t isHeader text s) (OutOfBounds Section sec) s"
    and "sec \<in> {1..int (length (Sections d))} \<Longrightarrow> proceeds (getHeaderFooter sec t isHeader s)"
    and "sec \<in> {1..int (length (Sections d))} \<Longrightarrow> proceeds (setHeaderFooterText sec t isHeader text s)"
proof -
  have u: "untouched s s1"
    using assms(1) by (rule getActiveDocument_untouched)
  show "sec \<notin> {1..int (length (Sections d))} \<Longrightarrow>
           rejected (getHeaderFooter sec t isHeader s) (OutOfBounds Section sec) s"
    using u by (auto simp: getHeaderFooter_valid [OF assms(1)] rejected_def)
  show "sec \<notin> {1..int (length (Sections d))} \<Longrightarrow>
           rejected (setHeaderFooterText sec t isHeader text s) (OutOfBounds Section sec) s"
    using u by (auto simp: setHeaderFooterText_def getHeaderFooter_valid [OF assms(1)] rejected_def)
  show "sec \<in> {1..int (length (Sections d))} \<Longrightarrow> proceeds (getHeaderFooter sec t isHeader s)"
    by (simp add: getHeaderFooter_valid [OF assms(1)] Let_def)
  show "sec \<in> {1..int (length (Sections d))} \<Longrightarrow> proceeds (setHeaderFooterText sec t isHeader text s)"
    by (simp add: setHeaderFooterText_def getHeaderFooter_valid [OF assms(1)] Let_def)
qed

lemma paragraph_index:
  assumes "getActiveDocument s = (Inr (h, d), s1)"
  shows "p \<notin> {1..int (length (Paragraphs d))} \<Longrightarrow>
           rejected (selectParagraph p s) (OutOfBounds Paragraph p) s"
    and "p \<in> {1..int (length (Paragraphs d))} \<Longrightarrow> proceeds (selectParagraph p s)"
proof -
  have u: "untouched s s1"
    using assms(1) by (rule getActiveDocument_untouched)
  show "p \<notin> {1..int (length (Paragraphs d))} \<Longrightarrow>
           rejected (selectParagraph p s) (OutOfBounds Paragraph p) s"
    using assms(1) u by (auto simp: selectParagraph_def rejected_def)
  show "p \<in> {1..int (length (Paragraphs d))} \<Longrightarrow> proceeds (selectParagraph p s)"
    using assms(1) by (simp add: selectParagraph_def)
qed

text \<open>
  C1. The specification says that every 1-based index argument is checked against the
  size of its collection and, out of range, fails with an out-of-range error. That does
  not hold for the row and column index of \<open>getTableCell\<close> and
  \<open>setTableCellText\<close>: the service checks
  the table index only and hands row and column to the table's \<open>Cell\<close> lookup. On the
  sample document, whose table has two rows, row 5 makes \<open>setTableCellText\<close> fail with
  the automation layer's own failure, rewrapped twice; no out-of-range error of the
  service is involved.
\<close>

theorem cell_row_not_validated:
  "(5::int) \<notin> {1..int (length (Rows (Item (Tables sample_document) 1)))} \<and>
   fst (setTableCellText 1 5 1 ''x'' sample_state) =
     Inl (Failed ''Failed to set cell text.'' (Failed ''Failed to get cell.''
            (Automation ''The requested member of the collection does not exist.''))) \<and>
   \<not> is_out_of_range (root_cause
        (Failed ''Failed to set cell text.'' (Failed ''Failed to get cell.''
            (Automation ''The requested member of the collection does not exist.''))))"
proof -
  have t: "Tables sample_document = [\<lparr>Rows = [[''a'', ''b''], [''c'', ''d'']], ColumnsCount = 2\<rparr>]"
    by (simp add: sample_document_def)
  show ?thesis
    by (simp add: setTableCellText_def getTableCell_valid [OF ready_getActiveDocument [OF sample_ready]]
        t Item_def Cell_def)
qed

text \<open>
  C1, amended. Once the active document is obtained: a table index outside
  \<open>[1, N]\<close> makes every table operation fail with the table out-of-bounds error before
  any call is issued or any document changed, and likewise the insert-before row or
  column index outside \<open>[1, N + 1]\<close>, the inline-shape index, the section index and
  the paragraph index; an index inside its range passes its check, and the operation
  goes on without an out-of-range error for it. The row and the column index of
  \<open>getTableCell\<close> and \<open>setTableCellText\<close> are not checked by the service: the outcome
  is that of the automation model's \<open>Cell\<close> lookup.
\<close>

theorem index_validation:
  assumes "getActiveDocument s = (Inr (h, d), s1)"
  shows "(tableIndex \<notin> {1..int (length (Tables d))} \<longrightarrow>
            rejected (getTableCell tableIndex r c s) (OutOfBounds Table tableIndex) s \<and>
            rejected (setTableCellText tableIndex r c newText s) (OutOfBounds Table tableIndex) s \<and>
            rejected (insertTableRow tableIndex before s) (OutOfBounds Table tableIndex) s \<and>
            rejected (insertTableColumn tableIndex before s) (OutOfBounds Table tableIndex) s \<and>
            rejected (applyTableAutoFormat tableIndex formatName flags s) (OutOfBounds Table tableIndex) s) \<and>
         (tableIndex \<in> {1..int (length (Tables d))} \<longrightarrow>
            proceeds (getTableCell tableIndex r c s) \<and>
            proceeds (setTableCellText tableIndex r c newText s) \<and>
            proceeds (applyTableAutoFormat tableIndex formatName flags s) \<and>
            proceeds (insertTableRow tableIndex None s) \<and>
            proceeds (insertTableColumn tableIndex None s) \<and>
            (b \<in> {1..int (length (Rows (Item (Tables d) tableIndex))) + 1} \<longrightarrow>
               proceeds (insertTableRow tableIndex (Some b) s)) \<and>
            (b \<notin> {1..int (length (Rows (Item (Tables d) tableIndex))) + 1} \<longrightarrow>
               rejected (insertTableRow tableIndex (Some b) s) (InsertionOutOfBounds Row b) s) \<and>
            (b \<in> {1..int (ColumnsCount (Item (Tables d) tableIndex)) + 1} \<longrightarrow>
               proceeds (insertTableColumn tableIndex (Some b) s)) \<and>
            (b \<notin> {1..int (ColumnsCount (Item (Tables d) tableIndex)) + 1} \<longrightarrow>
               rejected (insertTableColumn tableIndex (Some b) s) (InsertionOutOfBounds Column b) s) \<and>
            getTableCell tableIndex r c s =
              (case Cell (Item (Tables d) tableIndex) r c of
                 Inl e \<Rightarrow> (Inl (Failed ''Failed to get cell.'' e), s1)
               | Inr x \<Rightarrow> (Inr (h, tableIndex, r, c), s1))) \<and>
         (shapeIndex \<notin> {1..int (length (InlineShapes d))} \<longrightarrow>
            rejected (setInlinePictureSize shapeIndex H W lock s) (OutOfBounds InlineShape shapeIndex) s) \<and>
         (shapeIndex \<in> {1..int (length (InlineShapes d))} \<longrightarrow>
            proceeds (setInlinePictureSize shapeIndex H W lock s)) \<and>
         (sectionIndex \<notin> {1..int (length (Sections d))} \<longrightarrow>
            rejected (getHeaderFooter sectionIndex t isHeader s) (OutOfBounds Section sectionIndex) s \<and>
            rejected (setHeaderFooterText sectionIndex t isHeader newText s)
              (OutOfBounds Section sectionIndex) s) \<and>
         (sectionIndex \<in> {1..int (length (Sections d))} \<longrightarrow>
            proceeds (getHeaderFooter sectionIndex t isHeader s) \<and>
            proceeds (setHeaderFooterText sectionIndex t isHeader newText s)) \<and>
         (paragraphIndex \<notin> {1..int (length (Paragraphs d))} \<longrightarrow>
            rejected (selectParagraph paragraphIndex s) (OutOfBounds Paragraph paragraphIndex) s) \<and>
         (paragraphIndex \<in> {1..int (length (Paragraphs d))} \<longrightarrow>
            proceeds (selectParagraph paragraphIndex s))"
proof -
  have cell: "getTableCell tableIndex r c s =
      (case Cell (Item (Tables d) tableIndex) r c of
         Inl e \<Rightarrow> (Inl (Failed ''Failed to get cell.'' e), s1)
       | Inr x \<Rightarrow> (Inr (h, tableIndex, r, c), s1))"
    if "tableIndex \<in> {1..int (length (Tables d))}"
    using that by (simp add: getTableCell_valid [OF assms])
  show ?thesis
    using table_index_rejected [OF assms] table_index_proceeds [OF assms] insertion_index [OF assms]
      shape_index [OF assms] section_index [OF assms] paragraph_index [OF assms] cell
    by (intro conjI impI) blast+
qed

theorem index_validation_witness:
  "(7::int) \<notin> {1..int (length (Tables sample_document))} \<and>
   rejected (insertTableRow 7 None sample_state) (OutOfBounds Table 7) sample_state \<and>
   rejected (setTableCellText 7 1 1 ''x'' sample_state) (OutOfBounds Table 7) sample_state \<and>
   (1::int) \<in> {1..int (length (Tables sample_document))} \<and>
   (4::int) \<notin> {1..int (length (Rows (Item (Tables sample_document) 1))) + 1} \<and>
   rejected (insertTableRow 1 (Some 4) sample_state) (InsertionOutOfBounds Row 4) sample_state \<and>
   (3::int) \<in> {1..int (length (Rows (Item (Tables sample_document) 1))) + 1} \<and>
   proceeds (insertTableRow 1 (Some 3) sample_state) \<and>
   (2::int) \<in> {1..int (length (Paragraphs sample_document))} \<and>
   proceeds (selectParagraph 2 sample_state) \<and>
   (3::int) \<notin> {1..int (length (Paragraphs sample_document))} \<and>
   rejected (selectParagraph 3 sample_state) (OutOfBounds Paragraph 3) sample_state \<and>
   (2::int) \<notin> {1..int (length (InlineShapes sample_document))} \<and>
   rejected (setInlinePictureSize 2 10 10 True sample_state) (OutOfBounds InlineShape 2) sample_state \<and>
   (2::int) \<notin> {1..int (length (Sections sample_document))} \<and>
   rejected (setHeaderFooterText 2 1 True ''x'' sample_state) (OutOfBounds Section 2) sample_state \<and>
   (1::int) \<in> {1..int (length (Sections sample_document))} \<and>
   proceeds (setHeaderFooterText 1 1 True ''x'' sample_state)"
proof -
  have g: "getActiveDocument sample_state = (Inr (0, sample_document), sample_state)"
    by (rule ready_getActiveDocument [OF sample_ready])
  have l: "length (Tables sample_document) = 1" "length (Paragraphs sample_document) = 2"
    "length (InlineShapes sample_document) = 1" "length (Sections sample_document) = 1"
    "length (Rows (Item (Tables sample_document) 1)) = 2"
    by (simp_all add: sample_document_def Item_def)
  show ?thesis
    using index_validation [OF g, where tableIndex = 7 and before = None and r = 1 and c = 1
        and newText = "''x''" and paragraphIndex = 2 and shapeIndex = 2 and H = 10 and W = 10
        and lock = True and sectionIndex = 2 and t = 1 and isHeader = True]
      index_validation [OF g, where tableIndex = 1 and b = 4 and paragraphIndex = 3
        and sectionIndex = 1 and t = 1 and isHeader = True and newText = "''x''"]
      index_validation [OF g, where tableIndex = 1 and b = 3]
    by (simp add: l)
qed

end
